theory Spec2Isabelle
  imports Complex_Main "HOL-Library.Sublist"
begin

section \<open>The voice session hook \<open>useGeminiLive\<close>\<close>

text \<open>
  The hook keeps its state in React state cells and refs. The model is a record of these
  cells, extended by what the browser and the remote service hold on behalf of the hook:
  a log of the calls the hook makes on them (\<open>trace\<close>), a table of the resources that are
  acquired and not yet released (\<open>allocated\<close>), a counter for fresh object identities,
  the script processors whose \<open>onaudioprocess\<close> handler is installed, and the state of the
  session promises.

  Every handler runs to completion before the next event is handled. The two \<open>async\<close>
  functions, \<open>connect\<close> and \<open>onmessage\<close>, are modelled in one piece: what the awaited
  call returns (\<open>getUserMedia\<close>, \<open>decodeAudioData\<close>) is an input of the handler, and no
  other event is handled while it waits. \<open>ctx.currentTime\<close> is read once per message, at
  the place where the source reads it, before the decode. The helpers \<open>createBlob\<close>,
  \<open>decode\<close> and \<open>decodeAudioData\<close> are not part of the hook: the blob of a frame and the
  decoded buffer of a chunk are inputs. Times and samples are real numbers.
\<close>

subsection \<open>Data\<close>

type_synonym handle = nat
type_synonym seconds = real
type_synonym blob = string

record TranscriptCallbacks =
  onUserTranscriptionChunk :: bool
  onUserTranscriptionComplete :: bool
  onAiTranscriptionChunk :: bool
  onAiTranscriptionComplete :: bool
  onTurnComplete :: bool
  onInterrupted :: bool

record AudioCallbacks =
  onAudioLevel :: bool
  onSpeakingStateChange :: bool

record UseGeminiLiveConfig =
  systemInstruction :: "string option"
  voiceName :: "string option"
  photoContext :: "string option"
  transcriptCallbacks :: "TranscriptCallbacks option"
  audioCallbacks :: "AudioCallbacks option"

text \<open>The part of a \<open>LiveServerMessage\<close> the handler reads. \<open>inlineData\<close> is
  \<open>modelTurn?.parts?.[0]?.inlineData?.data\<close>.\<close>

record ServerContent =
  inputTranscription :: "string option"
  outputTranscription :: "string option"
  inlineData :: "string option"
  turnComplete :: bool
  interrupted :: bool

record LiveServerMessage =
  serverContent :: "ServerContent option"

record AudioBuffer =
  duration :: seconds
  channelData :: "real list"

datatype js_error =
    DOMException string string
  | JsError string
  | ThrownString string
  | ThrownOther

datatype resource = Context handle | MicStream handle | Session handle

datatype effect =
    UserTranscriptionChunk string
  | UserTranscriptionComplete string
  | AiTranscriptionChunk string
  | AiTranscriptionComplete string
  | TurnComplete
  | Interrupted
  | AudioLevel "real option"
  | SpeakingStateChange bool
  | NewAudioContext handle nat
  | CloseAudioContext handle
  | GetUserMedia handle
  | LiveConnect handle string string
  | SessionClose handle
  | SendRealtimeInput handle blob
  | SourceStart handle seconds
  | SourceStop handle

datatype outcome = Completed | EarlyReturn | Rejected

record state =
  isConnected :: bool
  isConnecting :: bool
  error :: "string option"
  inputAudioContextRef :: "handle option"
  outputAudioContextRef :: "handle option"
  inputAnalyserRef :: "handle option"
  outputAnalyserRef :: "handle option"
  nextStartTimeRef :: seconds
  audioSourcesRef :: "handle list"
  sessionPromiseRef :: "handle option"
  currentSessionRef :: "handle option"
  currentUserTextRef :: string
  currentAiTextRef :: string
  configRef :: UseGeminiLiveConfig
  trace :: "effect list"
  allocated :: "resource list"
  nextId :: handle
  audioProcessHandlers :: "handle list"
  resolvedSessions :: "handle list"
  pendingSends :: "(handle \<times> blob) list"

text \<open>The state of a freshly mounted hook: \<open>useState(false)\<close>, \<open>useRef(null)\<close>,
  \<open>useRef(0)\<close>, \<open>useRef(new Set())\<close>, \<open>useRef('')\<close>, \<open>useRef({})\<close>.\<close>

definition emptyConfig :: UseGeminiLiveConfig where
  "emptyConfig = \<lparr>systemInstruction = None, voiceName = None, photoContext = None,
     transcriptCallbacks = None, audioCallbacks = None\<rparr>"

definition initialState :: state where
  "initialState = \<lparr>isConnected = False, isConnecting = False, error = None,
     inputAudioContextRef = None, outputAudioContextRef = None,
     inputAnalyserRef = None, outputAnalyserRef = None,
     nextStartTimeRef = 0, audioSourcesRef = [],
     sessionPromiseRef = None, currentSessionRef = None,
     currentUserTextRef = [], currentAiTextRef = [],
     configRef = emptyConfig,
     trace = [], allocated = [], nextId = 0, audioProcessHandlers = [],
     resolvedSessions = [], pendingSends = []\<rparr>"

subsection \<open>Optional values and optional callbacks\<close>

text \<open>A JavaScript string is truthy when it is present and not empty.\<close>

fun truthy :: "string option \<Rightarrow> bool" where
  "truthy None = False"
| "truthy (Some t) = (t \<noteq> [])"

text \<open>\<open>a || b\<close> on an optional string.\<close>

fun orElse :: "string option \<Rightarrow> string \<Rightarrow> string" where
  "orElse None d = d"
| "orElse (Some t) d = (if t = [] then d else t)"

definition hasTranscriptCallback :: "(TranscriptCallbacks \<Rightarrow> bool) \<Rightarrow> state \<Rightarrow> bool" where
  "hasTranscriptCallback f s =
     (case transcriptCallbacks (configRef s) of None \<Rightarrow> False | Some cbs \<Rightarrow> f cbs)"

definition hasAudioCallback :: "(AudioCallbacks \<Rightarrow> bool) \<Rightarrow> state \<Rightarrow> bool" where
  "hasAudioCallback f s =
     (case audioCallbacks (configRef s) of None \<Rightarrow> False | Some cbs \<Rightarrow> f cbs)"

definition emit :: "effect list \<Rightarrow> state \<Rightarrow> state" where
  "emit es s = s\<lparr>trace := trace s @ es\<rparr>"

text \<open>\<open>configRef.current.transcriptCallbacks?.f?.(x)\<close>: the call happens when the
  callback is supplied.\<close>

definition callTranscript :: "(TranscriptCallbacks \<Rightarrow> bool) \<Rightarrow> effect \<Rightarrow> state \<Rightarrow> state" where
  "callTranscript f e s = (if hasTranscriptCallback f s then emit [e] s else s)"

definition callAudio :: "(AudioCallbacks \<Rightarrow> bool) \<Rightarrow> effect \<Rightarrow> state \<Rightarrow> state" where
  "callAudio f e s = (if hasAudioCallback f s then emit [e] s else s)"

subsection \<open>cleanup\<close>

text \<open>The steps of \<open>cleanup\<close>, in the order of the source. \<open>source.stop()\<close> is logged
  whether or not it throws: the exception is caught and ignored. A session object has a
  \<open>close\<close> function.\<close>

definition stopAllSources :: "state \<Rightarrow> state" where
  "stopAllSources s =
     (emit (map SourceStop (audioSourcesRef s)) s)\<lparr>audioSourcesRef := []\<rparr>"

definition closeInputContext :: "state \<Rightarrow> state" where
  "closeInputContext s =
     (case inputAudioContextRef s of
        None \<Rightarrow> s
      | Some c \<Rightarrow> (emit [CloseAudioContext c] s)
                    \<lparr>inputAudioContextRef := None,
                     allocated := removeAll (Context c) (allocated s)\<rparr>)"

definition closeOutputContext :: "state \<Rightarrow> state" where
  "closeOutputContext s =
     (case outputAudioContextRef s of
        None \<Rightarrow> s
      | Some c \<Rightarrow> (emit [CloseAudioContext c] s)
                    \<lparr>outputAudioContextRef := None,
                     allocated := removeAll (Context c) (allocated s)\<rparr>)"

definition resetAnalysers :: "state \<Rightarrow> state" where
  "resetAnalysers s = s\<lparr>inputAnalyserRef := None, outputAnalyserRef := None\<rparr>"

definition closeSession :: "state \<Rightarrow> state" where
  "closeSession s =
     (case currentSessionRef s of
        None \<Rightarrow> s
      | Some k \<Rightarrow> (emit [SessionClose k] s)
                    \<lparr>currentSessionRef := None,
                     allocated := removeAll (Session k) (allocated s)\<rparr>)"

definition resetTranscripts :: "state \<Rightarrow> state" where
  "resetTranscripts s = s\<lparr>currentUserTextRef := [], currentAiTextRef := []\<rparr>"

definition resetStatus :: "state \<Rightarrow> state" where
  "resetStatus s = s\<lparr>sessionPromiseRef := None, isConnected := False, isConnecting := False\<rparr>"

definition resetCursor :: "state \<Rightarrow> state" where
  "resetCursor s = s\<lparr>nextStartTimeRef := 0\<rparr>"

definition cleanup :: "state \<Rightarrow> state" where
  "cleanup s =
     resetCursor (resetStatus (resetTranscripts (closeSession (resetAnalysers
       (closeOutputContext (closeInputContext (stopAllSources s)))))))"

definition disconnect :: "state \<Rightarrow> state" where
  "disconnect s = cleanup s"

subsection \<open>connect\<close>

text \<open>What \<open>connect\<close> finds in its environment: \<open>process.env.API_KEY\<close>, whether
  \<open>navigator.mediaDevices.getUserMedia\<close> exists, whether an \<open>AudioContext\<close> class
  exists, and the outcome of \<open>await getUserMedia(...)\<close> (\<open>None\<close> when the stream is
  granted, the thrown value otherwise).\<close>

record connect_env =
  API_KEY :: "string option"
  mediaDevices :: bool
  AudioContextClass :: bool
  getUserMedia :: "js_error option"

text \<open>The message chosen in the \<open>catch\<close> block of \<open>connect\<close>.\<close>

fun errorMessage :: "js_error \<Rightarrow> string" where
  "errorMessage (DOMException name msg) =
     (if name = ''NotAllowedError''
      then ''Microphone access denied. Please allow microphone permission and try again.''
      else if name = ''NotFoundError''
      then ''No microphone found. Please connect a microphone and try again.''
      else ''Audio error: '' @ name @ '' - '' @ msg)"
| "errorMessage (JsError msg) =
     (if msg \<noteq> [] then msg else ''Failed to start conversation.'')"
| "errorMessage (ThrownString t) = t"
| "errorMessage ThrownOther = ''Failed to start conversation.''"

definition connectCatch :: "js_error \<Rightarrow> state \<Rightarrow> state" where
  "connectCatch err s = cleanup (s\<lparr>error := Some (errorMessage err)\<rparr>)"

text \<open>Steps 1 and 2 of \<open>connect\<close>: the two audio contexts and their analysers.\<close>

definition createAudioGraph :: "state \<Rightarrow> state" where
  "createAudioGraph s =
     (let inputCtx = nextId s; outputCtx = nextId s + 1;
          inputAnalyser = nextId s + 2; outputAnalyser = nextId s + 3
      in (emit [NewAudioContext inputCtx 16000, NewAudioContext outputCtx 24000] s)
           \<lparr>inputAudioContextRef := Some inputCtx,
            outputAudioContextRef := Some outputCtx,
            inputAnalyserRef := Some inputAnalyser,
            outputAnalyserRef := Some outputAnalyser,
            allocated := allocated s @ [Context inputCtx, Context outputCtx],
            nextId := nextId s + 4\<rparr>)"

text \<open>Steps 3 to 6 once the microphone is granted: the stream and the input pipeline are
  local to the call, the session promise is stored. The session handle also names the
  script processor created by this call.\<close>

definition openSession :: "UseGeminiLiveConfig \<Rightarrow> state \<Rightarrow> state" where
  "openSession config s =
     (let stream = nextId s; session = nextId s + 1
      in (emit [GetUserMedia stream,
                LiveConnect session (orElse (voiceName config) ''Kore'')
                  (orElse (systemInstruction config)
                     ''You are a helpful, witty, and concise AI assistant. Keep your responses short and conversational.'')] s)
           \<lparr>sessionPromiseRef := Some session,
            allocated := allocated s @ [MicStream stream, Session session],
            nextId := nextId s + 2\<rparr>)"

definition connect :: "connect_env \<Rightarrow> UseGeminiLiveConfig \<Rightarrow> state \<Rightarrow> state" where
  "connect env config s =
     (if \<not> truthy (API_KEY env)
      then s\<lparr>error := Some ''API Key not found in environment variables.''\<rparr>
      else if \<not> mediaDevices env
      then s\<lparr>configRef := config,
             error := Some ''Your browser doesn't support microphone access. Please use Chrome, Firefox, or Edge, and make sure you're accessing via localhost or HTTPS.''\<rparr>
      else
        let s1 = s\<lparr>configRef := config, isConnecting := True, error := None,
                   currentUserTextRef := [], currentAiTextRef := []\<rparr>
        in if \<not> AudioContextClass env
           then connectCatch (JsError ''Your browser doesn't support Web Audio API.'') s1
           else (case getUserMedia env of
                   Some err \<Rightarrow> connectCatch err (createAudioGraph s1)
                 | None \<Rightarrow> openSession config (createAudioGraph s1)))"

subsection \<open>Channel callbacks and the capture pipeline\<close>

definition onopen :: "handle \<Rightarrow> state \<Rightarrow> state" where
  "onopen k s = s\<lparr>isConnected := True, isConnecting := False,
                  audioProcessHandlers := List.insert k (audioProcessHandlers s)\<rparr>"

text \<open>The \<open>then\<close> callbacks of session promise \<open>k\<close> run when it resolves: first the one
  registered by \<open>connect\<close>, then the sends registered while the promise was pending.\<close>

definition sessionResolved :: "handle \<Rightarrow> state \<Rightarrow> state" where
  "sessionResolved k s =
     (emit (map (SendRealtimeInput k) (map snd (filter (\<lambda>p. fst p = k) (pendingSends s)))) s)
       \<lparr>currentSessionRef := Some k,
        resolvedSessions := List.insert k (resolvedSessions s),
        pendingSends := filter (\<lambda>p. fst p \<noteq> k) (pendingSends s)\<rparr>"

text \<open>One frame of the script processor created together with session \<open>k\<close>. Without an
  installed handler the frame has no listener.\<close>

definition onaudioprocess :: "handle \<Rightarrow> blob \<Rightarrow> state \<Rightarrow> state" where
  "onaudioprocess k pcmBlob s =
     (if k \<notin> set (audioProcessHandlers s) then s
      else (case sessionPromiseRef s of
              None \<Rightarrow> s
            | Some p \<Rightarrow>
                if p \<in> set (resolvedSessions s)
                then emit [SendRealtimeInput p pcmBlob] s
                else s\<lparr>pendingSends := pendingSends s @ [(p, pcmBlob)]\<rparr>))"

definition onclose :: "state \<Rightarrow> state" where
  "onclose s = cleanup s"

definition onerror :: "state \<Rightarrow> state" where
  "onerror s = cleanup (s\<lparr>error := Some ''Connection error occurred.''\<rparr>)"

text \<open>The cleanup function returned by \<open>useEffect\<close>.\<close>

definition unmount :: "state \<Rightarrow> state" where
  "unmount s = cleanup s"

subsection \<open>onmessage\<close>

text \<open>What the handler reads besides the message: \<open>ctx.currentTime\<close> and the outcome of
  \<open>await decodeAudioData(decode(base64Audio), ...)\<close> (\<open>None\<close> when it throws).\<close>

record message_env =
  currentTime :: seconds
  decoded :: "AudioBuffer option"

fun contentField :: "(ServerContent \<Rightarrow> 'a option) \<Rightarrow> ServerContent option \<Rightarrow> 'a option" where
  "contentField f None = None"
| "contentField f (Some c) = f c"

fun contentFlag :: "(ServerContent \<Rightarrow> bool) \<Rightarrow> ServerContent option \<Rightarrow> bool" where
  "contentFlag f None = False"
| "contentFlag f (Some c) = f c"

definition handleInputTranscription :: "ServerContent option \<Rightarrow> state \<Rightarrow> state" where
  "handleInputTranscription content s =
     (case contentField inputTranscription content of
        None \<Rightarrow> s
      | Some userChunk \<Rightarrow>
          if userChunk = [] then s
          else callTranscript onUserTranscriptionChunk (UserTranscriptionChunk userChunk)
                 (s\<lparr>currentUserTextRef := currentUserTextRef s @ userChunk\<rparr>))"

definition handleOutputTranscription :: "ServerContent option \<Rightarrow> state \<Rightarrow> state" where
  "handleOutputTranscription content s =
     (case contentField outputTranscription content of
        None \<Rightarrow> s
      | Some aiChunk \<Rightarrow>
          if aiChunk = [] then s
          else callTranscript onAiTranscriptionChunk (AiTranscriptionChunk aiChunk)
                 (s\<lparr>currentAiTextRef := currentAiTextRef s @ aiChunk\<rparr>))"

text \<open>The loudness loop: every 100th sample. With no samples the quotient is \<open>0 / 0\<close>,
  which is NaN in the source and \<open>None\<close> here.\<close>

function sumSquares :: "real list \<Rightarrow> nat \<Rightarrow> real \<Rightarrow> real" where
  "sumSquares rawData i acc =
     (if i < length rawData
      then sumSquares rawData (i + 100) (acc + rawData ! i * rawData ! i)
      else acc)"
  by pat_completeness auto
termination
  by (relation "measure (\<lambda>(rawData, i, acc). length rawData - i)") auto

definition audioLevel :: "real list \<Rightarrow> real option" where
  "audioLevel rawData =
     (if rawData = [] then None
      else Some (sqrt (sumSquares rawData 0 0 / (real (length rawData) / 100)) * 5))"

text \<open>When the AI starts responding, the accumulated user text is saved.\<close>

definition closeUserTurn :: "state \<Rightarrow> state" where
  "closeUserTurn s =
     (if currentUserTextRef s \<noteq> [] \<and> audioSourcesRef s = []
      then (callTranscript onUserTranscriptionComplete
              (UserTranscriptionComplete (currentUserTextRef s)) s)
             \<lparr>currentUserTextRef := []\<rparr>
      else s)"

text \<open>The part of the audio block after \<open>decodeAudioData\<close> has returned a buffer and the
  source node is connected to the output analyser.\<close>

definition schedule :: "AudioBuffer \<Rightarrow> state \<Rightarrow> state" where
  "schedule audioBuffer s =
     (let sourceNode = nextId s;
          s1 = (emit [SourceStart sourceNode (nextStartTimeRef s)] s)
                 \<lparr>audioSourcesRef := audioSourcesRef s @ [sourceNode],
                  nextStartTimeRef := nextStartTimeRef s + duration audioBuffer,
                  nextId := nextId s + 1\<rparr>
      in callAudio onAudioLevel (AudioLevel (audioLevel (channelData audioBuffer))) s1)"

definition handleAudio :: "message_env \<Rightarrow> ServerContent option \<Rightarrow> state \<Rightarrow> outcome \<times> state" where
  "handleAudio env content s =
     (if \<not> truthy (contentField inlineData content) then (Completed, s)
      else
        let s1 = closeUserTurn s
        in (case outputAudioContextRef s1 of
              None \<Rightarrow> (EarlyReturn, s1)
            | Some ctx \<Rightarrow>
                let s2 = (if audioSourcesRef s1 = []
                          then callAudio onSpeakingStateChange (SpeakingStateChange True) s1
                          else s1);
                    s3 = s2\<lparr>nextStartTimeRef := max (nextStartTimeRef s2) (currentTime env)\<rparr>
                in (case decoded env of
                      None \<Rightarrow> (Rejected, s3)
                    | Some audioBuffer \<Rightarrow>
                        (case outputAnalyserRef s3 of
                           None \<Rightarrow> (Rejected, s3\<lparr>nextId := nextId s3 + 1\<rparr>)
                         | Some analyser \<Rightarrow> (Completed, schedule audioBuffer s3)))))"

definition handleTurnComplete :: "ServerContent option \<Rightarrow> state \<Rightarrow> state" where
  "handleTurnComplete content s =
     (if contentFlag turnComplete content
      then (callTranscript onTurnComplete TurnComplete
              (callTranscript onAiTranscriptionComplete
                 (AiTranscriptionComplete (currentAiTextRef s)) s))
             \<lparr>currentAiTextRef := []\<rparr>
      else s)"

definition handleInterrupted :: "ServerContent option \<Rightarrow> state \<Rightarrow> state" where
  "handleInterrupted content s =
     (if contentFlag interrupted content
      then callAudio onSpeakingStateChange (SpeakingStateChange False)
             (callTranscript onInterrupted Interrupted
                ((stopAllSources s)\<lparr>nextStartTimeRef := 0, currentAiTextRef := []\<rparr>))
      else s)"

definition onmessage :: "message_env \<Rightarrow> LiveServerMessage \<Rightarrow> state \<Rightarrow> outcome \<times> state" where
  "onmessage env message s =
     (let content = serverContent message;
          s1 = handleOutputTranscription content (handleInputTranscription content s)
      in (case handleAudio env content s1 of
            (Completed, s2) \<Rightarrow>
              (Completed, handleInterrupted content (handleTurnComplete content s2))
          | (EarlyReturn, s2) \<Rightarrow> (EarlyReturn, s2)
          | (Rejected, s2) \<Rightarrow> (Rejected, s2)))"

text \<open>The \<open>ended\<close> listener of a source node.\<close>

definition onended :: "handle \<Rightarrow> state \<Rightarrow> state" where
  "onended sourceNode s =
     (let s1 = s\<lparr>audioSourcesRef := removeAll sourceNode (audioSourcesRef s)\<rparr>
      in if audioSourcesRef s1 = []
         then callAudio onSpeakingStateChange (SpeakingStateChange False) s1
         else s1)"

subsection \<open>Event sequences\<close>

datatype event =
    Connect connect_env UseGeminiLiveConfig
  | Disconnect
  | Unmount
  | OnOpen handle
  | OnMessage message_env LiveServerMessage
  | OnClose
  | OnError
  | OnAudioProcess handle blob
  | SessionResolved handle
  | OnEnded handle

fun step :: "event \<Rightarrow> state \<Rightarrow> state" where
  "step (Connect env config) s = connect env config s"
| "step Disconnect s = disconnect s"
| "step Unmount s = unmount s"
| "step (OnOpen k) s = onopen k s"
| "step (OnMessage env message) s = snd (onmessage env message s)"
| "step OnClose s = onclose s"
| "step OnError s = onerror s"
| "step (OnAudioProcess k pcmBlob) s = onaudioprocess k pcmBlob s"
| "step (SessionResolved k) s = sessionResolved k s"
| "step (OnEnded sourceNode) s = onended sourceNode s"

fun run :: "event list \<Rightarrow> state \<Rightarrow> state" where
  "run [] s = s"
| "run (e # es) s = run es (step e s)"

section \<open>Vocabulary of the properties\<close>

text \<open>The effects that an optional callback contributes to the log.\<close>

definition tcall :: "(TranscriptCallbacks \<Rightarrow> bool) \<Rightarrow> effect \<Rightarrow> state \<Rightarrow> effect list" where
  "tcall f e s = (if hasTranscriptCallback f s then [e] else [])"

definition acall :: "(AudioCallbacks \<Rightarrow> bool) \<Rightarrow> effect \<Rightarrow> state \<Rightarrow> effect list" where
  "acall f e s = (if hasAudioCallback f s then [e] else [])"

fun textOf :: "string option \<Rightarrow> string" where
  "textOf None = []"
| "textOf (Some t) = t"

definition userChunkCall :: "ServerContent option \<Rightarrow> state \<Rightarrow> effect list" where
  "userChunkCall c s =
     (if textOf (contentField inputTranscription c) = [] then []
      else tcall onUserTranscriptionChunk
             (UserTranscriptionChunk (textOf (contentField inputTranscription c))) s)"

definition aiChunkCall :: "ServerContent option \<Rightarrow> state \<Rightarrow> effect list" where
  "aiChunkCall c s =
     (if textOf (contentField outputTranscription c) = [] then []
      else tcall onAiTranscriptionChunk
             (AiTranscriptionChunk (textOf (contentField outputTranscription c))) s)"

definition userTurnCloses :: "state \<Rightarrow> bool" where
  "userTurnCloses s = (currentUserTextRef s \<noteq> [] \<and> audioSourcesRef s = [])"

text \<open>What a handler appended to the log.\<close>

definition newEffects :: "state \<Rightarrow> state \<Rightarrow> effect list" where
  "newEffects s s' = drop (length (trace s)) (trace s')"

text \<open>The start times passed to \<open>sourceNode.start\<close>, in the order of the calls.\<close>

fun startTimes :: "effect list \<Rightarrow> seconds list" where
  "startTimes [] = []"
| "startTimes (SourceStart k t # es) = t # startTimes es"
| "startTimes (e # es) = startTimes es"

text \<open>Messages delivered in order, each with what its handler reads from the
  environment.\<close>

definition deliver :: "(message_env \<times> LiveServerMessage) list \<Rightarrow> state \<Rightarrow> state" where
  "deliver chunks s = run (map (\<lambda>(env, m). OnMessage env m) chunks) s"

text \<open>A message that carries audio which decodes, and no interruption.\<close>

definition isAudioChunk :: "message_env \<Rightarrow> LiveServerMessage \<Rightarrow> bool" where
  "isAudioChunk env m =
     (truthy (contentField inlineData (serverContent m)) \<and> decoded env \<noteq> None
      \<and> \<not> contentFlag interrupted (serverContent m))"

definition arrival :: "(message_env \<times> LiveServerMessage) list \<Rightarrow> nat \<Rightarrow> seconds" where
  "arrival chunks i = currentTime (fst (chunks ! i))"

definition chunkDuration :: "(message_env \<times> LiveServerMessage) list \<Rightarrow> nat \<Rightarrow> seconds" where
  "chunkDuration chunks i = duration (the (decoded (fst (chunks ! i))))"

text \<open>The scheduling rule in the words of the specification: \<open>startAt = max(cursor, now)\<close>,
  then \<open>cursor = startAt + d\<close>.\<close>

fun specStarts :: "seconds \<Rightarrow> (seconds \<times> seconds) list \<Rightarrow> seconds list" where
  "specStarts cursor [] = []"
| "specStarts cursor ((now, d) # rest) = max cursor now # specStarts (max cursor now + d) rest"

fun specCursor :: "seconds \<Rightarrow> (seconds \<times> seconds) list \<Rightarrow> seconds" where
  "specCursor cursor [] = cursor"
| "specCursor cursor ((now, d) # rest) = specCursor (max cursor now + d) rest"

definition timing :: "message_env \<times> LiveServerMessage \<Rightarrow> seconds \<times> seconds" where
  "timing p = (currentTime (fst p), duration (the (decoded (fst p))))"

text \<open>The four kinds of inbound event of the specification, each as a message that carries
  nothing else.\<close>

definition noContent :: ServerContent where
  "noContent = \<lparr>inputTranscription = None, outputTranscription = None, inlineData = None,
     turnComplete = False, interrupted = False\<rparr>"

definition audio_chunk :: "string \<Rightarrow> LiveServerMessage" where
  "audio_chunk bytes = \<lparr>serverContent = Some (noContent\<lparr>inlineData := Some bytes\<rparr>)\<rparr>"

definition user_transcript_chunk :: "string \<Rightarrow> LiveServerMessage" where
  "user_transcript_chunk t = \<lparr>serverContent = Some (noContent\<lparr>inputTranscription := Some t\<rparr>)\<rparr>"

definition ai_transcript_chunk :: "string \<Rightarrow> LiveServerMessage" where
  "ai_transcript_chunk t = \<lparr>serverContent = Some (noContent\<lparr>outputTranscription := Some t\<rparr>)\<rparr>"

definition turn_complete :: LiveServerMessage where
  "turn_complete = \<lparr>serverContent = Some (noContent\<lparr>turnComplete := True\<rparr>)\<rparr>"

definition interrupted_event :: LiveServerMessage where
  "interrupted_event = \<lparr>serverContent = Some (noContent\<lparr>interrupted := True\<rparr>)\<rparr>"

text \<open>A concrete session for the examples: every callback supplied, the microphone
  granted, the channel opened.\<close>

definition grantedEnv :: connect_env where
  "grantedEnv = \<lparr>API_KEY = Some ''k'', mediaDevices = True, AudioContextClass = True,
     getUserMedia = None\<rparr>"

definition allCallbacks :: UseGeminiLiveConfig where
  "allCallbacks = \<lparr>systemInstruction = Some ''Listen.'', voiceName = Some ''Kore'',
     photoContext = None,
     transcriptCallbacks = Some \<lparr>onUserTranscriptionChunk = True,
       onUserTranscriptionComplete = True, onAiTranscriptionChunk = True,
       onAiTranscriptionComplete = True, onTurnComplete = True, onInterrupted = True\<rparr>,
     audioCallbacks = Some \<lparr>onAudioLevel = True, onSpeakingStateChange = True\<rparr>\<rparr>"

definition liveState :: state where
  "liveState = onopen 5 (connect grantedEnv allCallbacks initialState)"

definition reading :: "seconds \<Rightarrow> seconds \<Rightarrow> message_env" where
  "reading now d = \<lparr>currentTime = now, decoded = Some \<lparr>duration = d, channelData = []\<rparr>\<rparr>"

text \<open>The scenario of the specification: two chunks of 1.0 s and 1.5 s, handled at
  times 0 and 0.2.\<close>

definition scenarioChunks :: "(message_env \<times> LiveServerMessage) list" where
  "scenarioChunks = [(reading 0 1, audio_chunk ''UklGRg==''),
                     (reading (1/5) (3/2), audio_chunk ''UklGRg=='')]"

text \<open>The texts handed to \<open>onUserTranscriptionComplete\<close> and to
  \<open>onAiTranscriptionComplete\<close>, in the order of the calls.\<close>

fun userCompletes :: "effect list \<Rightarrow> string list" where
  "userCompletes [] = []"
| "userCompletes (UserTranscriptionComplete t # es) = t # userCompletes es"
| "userCompletes (e # es) = userCompletes es"

fun aiCompletes :: "effect list \<Rightarrow> string list" where
  "aiCompletes [] = []"
| "aiCompletes (AiTranscriptionComplete t # es) = t # aiCompletes es"
| "aiCompletes (e # es) = aiCompletes es"

text \<open>The user buffer as the audio block of the handler finds it: the chunk of the same
  message is already appended. Likewise the AI buffer for the later blocks.\<close>

definition userBuffer :: "LiveServerMessage \<Rightarrow> state \<Rightarrow> string" where
  "userBuffer m s = currentUserTextRef s @ textOf (contentField inputTranscription (serverContent m))"

definition aiBuffer :: "LiveServerMessage \<Rightarrow> state \<Rightarrow> string" where
  "aiBuffer m s = currentAiTextRef s @ textOf (contentField outputTranscription (serverContent m))"

definition hasAudio :: "LiveServerMessage \<Rightarrow> bool" where
  "hasAudio m = truthy (contentField inlineData (serverContent m))"

text \<open>The scenario of the specification: the user transcript arrives in three chunks
  \<open>hi\<close>, then the first audio chunk of the answer.\<close>

definition spokenState :: state where
  "spokenState = deliver [(reading 0 0, user_transcript_chunk ''hi''),
                          (reading 0 0, user_transcript_chunk ''hi''),
                          (reading 0 0, user_transcript_chunk ''hi'')] liveState"

text \<open>The sources on which \<open>stop\<close> is called, in the order of the calls.\<close>

fun stops :: "effect list \<Rightarrow> handle list" where
  "stops [] = []"
| "stops (SourceStop k # es) = k # stops es"
| "stops (e # es) = stops es"

text \<open>The active set as the interruption block finds it: the source scheduled by the same
  message is already in it.\<close>

definition activeSources :: "LiveServerMessage \<Rightarrow> state \<Rightarrow> handle list" where
  "activeSources m s = audioSourcesRef s @ (if hasAudio m then [nextId s] else [])"

text \<open>The text received on a transcript channel by a list of messages.\<close>

definition received :: "(ServerContent \<Rightarrow> string option) \<Rightarrow> (message_env \<times> LiveServerMessage) list \<Rightarrow> string" where
  "received f msgs = concat (map (\<lambda>p. textOf (contentField f (serverContent (snd p)))) msgs)"

text \<open>The AI in the middle of a turn: some transcript, and a chunk of 2 s scheduled at 0.\<close>

definition speakingState :: state where
  "speakingState = deliver [(reading 0 0, ai_transcript_chunk ''Once upon''),
                            (reading 0 2, audio_chunk ''UklGRg=='')] liveState"

text \<open>Two AI turns delivered to the session while it is speaking.\<close>

definition twoTurns :: "(message_env \<times> LiveServerMessage) list" where
  "twoTurns = [(reading 1 0, ai_transcript_chunk '' a time''), (reading 1 0, turn_complete),
               (reading 1 0, ai_transcript_chunk ''Next''), (reading 1 0, turn_complete)]"

text \<open>The resources a handler acquired: contexts created, streams granted, sessions
  opened.\<close>

fun acquisitions :: "effect list \<Rightarrow> effect list" where
  "acquisitions [] = []"
| "acquisitions (NewAudioContext c r # es) = NewAudioContext c r # acquisitions es"
| "acquisitions (GetUserMedia k # es) = GetUserMedia k # acquisitions es"
| "acquisitions (LiveConnect k v i # es) = LiveConnect k v i # acquisitions es"
| "acquisitions (e # es) = acquisitions es"

text \<open>The sessions opened with \<open>ai.live.connect\<close>, and those closed.\<close>

fun sessionsOpened :: "effect list \<Rightarrow> handle list" where
  "sessionsOpened [] = []"
| "sessionsOpened (LiveConnect k v i # es) = k # sessionsOpened es"
| "sessionsOpened (e # es) = sessionsOpened es"

fun sessionsClosed :: "effect list \<Rightarrow> handle list" where
  "sessionsClosed [] = []"
| "sessionsClosed (SessionClose k # es) = k # sessionsClosed es"
| "sessionsClosed (e # es) = sessionsClosed es"

text \<open>An environment in which \<open>connect\<close> gets everything it asks for.\<close>

definition granted :: "connect_env \<Rightarrow> bool" where
  "granted env = (truthy (API_KEY env) \<and> mediaDevices env \<and> AudioContextClass env
                  \<and> getUserMedia env = None)"

text \<open>The session right after \<open>connect\<close> has returned (connecting), and once the channel
  has opened and the session promise has resolved.\<close>

definition connectingState :: state where
  "connectingState = connect grantedEnv allCallbacks initialState"

definition establishedState :: state where
  "establishedState = run [Connect grantedEnv allCallbacks, OnOpen 5, SessionResolved 5] initialState"

text \<open>An environment in which the user denies the microphone.\<close>

definition deniedEnv :: connect_env where
  "deniedEnv = \<lparr>API_KEY = Some ''k'', mediaDevices = True, AudioContextClass = True,
     getUserMedia = Some (DOMException ''NotAllowedError'' ''Permission denied'')\<rparr>"

text \<open>What is left of a session when nothing is held: no context, analyser or session in the
  refs, and not connecting or connected.\<close>

definition nothingHeld :: "state \<Rightarrow> bool" where
  "nothingHeld s =
     (inputAudioContextRef s = None \<and> outputAudioContextRef s = None
      \<and> inputAnalyserRef s = None \<and> outputAnalyserRef s = None
      \<and> sessionPromiseRef s = None \<and> currentSessionRef s = None
      \<and> \<not> isConnecting s \<and> \<not> isConnected s)"

text \<open>The state with the stored \<open>photoContext\<close> blanked: everything the hook returns,
  holds or has done, except that one config field.\<close>

definition forgetPhoto :: "state \<Rightarrow> state" where
  "forgetPhoto s = s\<lparr>configRef := (configRef s)\<lparr>photoContext := None\<rparr>\<rparr>"

section \<open>Basic facts\<close>

subsection \<open>Evaluating the examples\<close>

lemmas msg_defs = onmessage_def handleInputTranscription_def handleOutputTranscription_def
  handleAudio_def handleTurnComplete_def handleInterrupted_def closeUserTurn_def schedule_def
  callTranscript_def callAudio_def emit_def hasTranscriptCallback_def hasAudioCallback_def
  stopAllSources_def audioLevel_def

lemmas event_defs = audio_chunk_def user_transcript_chunk_def ai_transcript_chunk_def
  turn_complete_def interrupted_event_def noContent_def reading_def

lemma allCallbacks_sel [simp]:
  "voiceName allCallbacks = Some ''Kore''"
  "systemInstruction allCallbacks = Some ''Listen.''"
  "photoContext allCallbacks = None"
  "transcriptCallbacks allCallbacks = Some \<lparr>onUserTranscriptionChunk = True,
       onUserTranscriptionComplete = True, onAiTranscriptionChunk = True,
       onAiTranscriptionComplete = True, onTurnComplete = True, onInterrupted = True\<rparr>"
  "audioCallbacks allCallbacks = Some \<lparr>onAudioLevel = True, onSpeakingStateChange = True\<rparr>"
  by (simp_all add: allCallbacks_def)

lemma liveState_eq:
  "liveState =
    \<lparr>isConnected = True, isConnecting = False, error = None,
       inputAudioContextRef = Some 0, outputAudioContextRef = Some 1,
       inputAnalyserRef = Some 2, outputAnalyserRef = Some 3,
       nextStartTimeRef = 0, audioSourcesRef = [],
       sessionPromiseRef = Some 5, currentSessionRef = None,
       currentUserTextRef = [], currentAiTextRef = [],
       configRef = allCallbacks,
       trace = [NewAudioContext 0 16000, NewAudioContext 1 24000,
           GetUserMedia 4, LiveConnect 5 ''Kore'' ''Listen.''],
       allocated = [Context 0, Context 1, MicStream 4, Session 5],
       nextId = 6, audioProcessHandlers = [5], resolvedSessions = [],
       pendingSends = []\<rparr>"
  by (simp add: liveState_def connect_def createAudioGraph_def openSession_def emit_def
        onopen_def initialState_def grantedEnv_def Let_def)

subsection \<open>Optional callbacks\<close>

lemma callTranscript_eq: "callTranscript f e s = s\<lparr>trace := trace s @ tcall f e s\<rparr>"
  by (simp add: callTranscript_def emit_def tcall_def)

lemma callAudio_eq: "callAudio f e s = s\<lparr>trace := trace s @ acall f e s\<rparr>"
  by (simp add: callAudio_def emit_def acall_def)

lemma tcall_upd [simp]:
  "tcall f e (s\<lparr>trace := a\<rparr>) = tcall f e s"
  "tcall f e (s\<lparr>currentUserTextRef := b\<rparr>) = tcall f e s"
  "tcall f e (s\<lparr>currentAiTextRef := b\<rparr>) = tcall f e s"
  "tcall f e (s\<lparr>nextStartTimeRef := c\<rparr>) = tcall f e s"
  "tcall f e (s\<lparr>audioSourcesRef := d\<rparr>) = tcall f e s"
  "tcall f e (s\<lparr>nextId := n\<rparr>) = tcall f e s"
  by (simp_all add: tcall_def hasTranscriptCallback_def)

lemma acall_upd [simp]:
  "acall g e (s\<lparr>trace := a\<rparr>) = acall g e s"
  "acall g e (s\<lparr>currentUserTextRef := b\<rparr>) = acall g e s"
  "acall g e (s\<lparr>currentAiTextRef := b\<rparr>) = acall g e s"
  "acall g e (s\<lparr>nextStartTimeRef := c\<rparr>) = acall g e s"
  "acall g e (s\<lparr>audioSourcesRef := d\<rparr>) = acall g e s"
  "acall g e (s\<lparr>nextId := n\<rparr>) = acall g e s"
  by (simp_all add: acall_def hasAudioCallback_def)

lemma startTimes_append [simp]: "startTimes (xs @ ys) = startTimes xs @ startTimes ys"
  by (induction xs rule: startTimes.induct) simp_all

lemma startTimes_call [simp]:
  "startTimes (tcall f e s) = (if hasTranscriptCallback f s then startTimes [e] else [])"
  "startTimes (acall g e s) = (if hasAudioCallback g s then startTimes [e] else [])"
  by (simp_all add: tcall_def acall_def)

subsection \<open>The blocks of \<open>onmessage\<close> as record updates\<close>

lemma handleInputTranscription_eq:
  "handleInputTranscription c s =
     s\<lparr>currentUserTextRef := currentUserTextRef s @ textOf (contentField inputTranscription c),
       trace := trace s @ userChunkCall c s\<rparr>"
  by (cases "contentField inputTranscription c")
     (simp_all add: handleInputTranscription_def userChunkCall_def callTranscript_eq)

lemma handleOutputTranscription_eq:
  "handleOutputTranscription c s =
     s\<lparr>currentAiTextRef := currentAiTextRef s @ textOf (contentField outputTranscription c),
       trace := trace s @ aiChunkCall c s\<rparr>"
  by (cases "contentField outputTranscription c")
     (simp_all add: handleOutputTranscription_def aiChunkCall_def callTranscript_eq)


lemma closeUserTurn_eq:
  "closeUserTurn s =
     s\<lparr>trace := trace s @ (if userTurnCloses s
          then tcall onUserTranscriptionComplete (UserTranscriptionComplete (currentUserTextRef s)) s else []),
       currentUserTextRef := (if userTurnCloses s then [] else currentUserTextRef s)\<rparr>"
  by (simp add: closeUserTurn_def userTurnCloses_def callTranscript_eq)

lemma schedule_eq:
  "schedule b s =
     s\<lparr>trace := trace s @ SourceStart (nextId s) (nextStartTimeRef s)
                 # acall onAudioLevel (AudioLevel (audioLevel (channelData b))) s,
       audioSourcesRef := audioSourcesRef s @ [nextId s],
       nextStartTimeRef := nextStartTimeRef s + duration b,
       nextId := nextId s + 1\<rparr>"
  by (simp add: schedule_def callAudio_eq emit_def Let_def)

lemma handleAudio_ok:
  assumes "truthy (contentField inlineData c)" "outputAudioContextRef s \<noteq> None"
    "outputAnalyserRef s \<noteq> None" "decoded env \<noteq> None"
  shows "handleAudio env c s =
    (Completed, s\<lparr>trace := trace s
         @ (if userTurnCloses s
            then tcall onUserTranscriptionComplete (UserTranscriptionComplete (currentUserTextRef s)) s else [])
         @ (if audioSourcesRef s = [] then acall onSpeakingStateChange (SpeakingStateChange True) s else [])
         @ SourceStart (nextId s) (max (nextStartTimeRef s) (currentTime env))
         # acall onAudioLevel (AudioLevel (audioLevel (channelData (the (decoded env))))) s,
       currentUserTextRef := (if userTurnCloses s then [] else currentUserTextRef s),
       audioSourcesRef := audioSourcesRef s @ [nextId s],
       nextStartTimeRef := max (nextStartTimeRef s) (currentTime env) + duration (the (decoded env)),
       nextId := nextId s + 1\<rparr>)"
  using assms
  by (cases "audioSourcesRef s = []")
     (auto simp add: handleAudio_def closeUserTurn_eq schedule_eq callAudio_eq Let_def)

lemma handleAudio_none:
  "\<not> truthy (contentField inlineData c) \<Longrightarrow> handleAudio env c s = (Completed, s)"
  by (simp add: handleAudio_def)

lemma handleTurnComplete_eq:
  "handleTurnComplete c s =
     s\<lparr>trace := trace s @ (if contentFlag turnComplete c
          then tcall onAiTranscriptionComplete (AiTranscriptionComplete (currentAiTextRef s)) s
               @ tcall onTurnComplete TurnComplete s else []),
       currentAiTextRef := (if contentFlag turnComplete c then [] else currentAiTextRef s)\<rparr>"
  by (simp add: handleTurnComplete_def callTranscript_eq)

lemma handleInterrupted_eq:
  "handleInterrupted c s =
     (if contentFlag interrupted c then
     s\<lparr>trace := trace s @ map SourceStop (audioSourcesRef s) @ tcall onInterrupted Interrupted s
             @ acall onSpeakingStateChange (SpeakingStateChange False) s,
       audioSourcesRef := [], nextStartTimeRef := 0, currentAiTextRef := []\<rparr> else s)"
  by (simp add: handleInterrupted_def callTranscript_eq callAudio_eq stopAllSources_def emit_def)

lemmas block_eqs = handleInputTranscription_eq handleOutputTranscription_eq handleTurnComplete_eq
  handleInterrupted_eq

lemma onmessage_audio:
  assumes "isAudioChunk env m" "outputAudioContextRef s \<noteq> None" "outputAnalyserRef s \<noteq> None"
  shows "nextStartTimeRef (snd (onmessage env m s))
           = max (nextStartTimeRef s) (currentTime env) + duration (the (decoded env))"
    and "startTimes (trace (snd (onmessage env m s)))
           = startTimes (trace s) @ [max (nextStartTimeRef s) (currentTime env)]"
    and "outputAudioContextRef (snd (onmessage env m s)) = outputAudioContextRef s"
    and "outputAnalyserRef (snd (onmessage env m s)) = outputAnalyserRef s"
  using assms
  by (simp_all add: onmessage_def isAudioChunk_def Let_def block_eqs handleAudio_ok
        userChunkCall_def aiChunkCall_def)


lemma deliver_Nil [simp]: "deliver [] s = s"
  by (simp add: deliver_def)

lemma deliver_Cons [simp]: "deliver ((env, m) # rest) s = deliver rest (snd (onmessage env m s))"
  by (simp add: deliver_def)

lemma timing_pair [simp]: "timing (env, m) = (currentTime env, duration (the (decoded env)))"
  by (simp add: timing_def)

lemma deliver_refines_spec:
  assumes "\<forall>(env, m) \<in> set chunks. isAudioChunk env m"
    and "outputAudioContextRef s \<noteq> None" and "outputAnalyserRef s \<noteq> None"
  shows "startTimes (trace (deliver chunks s))
           = startTimes (trace s) @ specStarts (nextStartTimeRef s) (map timing chunks)
         \<and> nextStartTimeRef (deliver chunks s) = specCursor (nextStartTimeRef s) (map timing chunks)"
  using assms
proof (induction chunks arbitrary: s)
  case Nil
  then show ?case by simp
next
  case (Cons p rest)
  obtain env m where p: "p = (env, m)" by (cases p)
  from Cons.prems p have a: "isAudioChunk env m" by simp
  let ?s1 = "snd (onmessage env m s)"
  have ctx: "outputAudioContextRef ?s1 \<noteq> None" "outputAnalyserRef ?s1 \<noteq> None"
    using a Cons.prems by (simp_all add: onmessage_audio)
  have rest: "\<forall>(env, m) \<in> set rest. isAudioChunk env m"
    using Cons.prems by simp
  have ih: "startTimes (trace (deliver rest ?s1))
           = startTimes (trace ?s1) @ specStarts (nextStartTimeRef ?s1) (map timing rest)
         \<and> nextStartTimeRef (deliver rest ?s1) = specCursor (nextStartTimeRef ?s1) (map timing rest)"
    by (rule Cons.IH [OF rest ctx])
  show ?case
    using ih a Cons.prems(2,3) by (simp add: p onmessage_audio)
qed

lemma specStarts_length [simp]: "length (specStarts c xs) = length xs"
  by (induction c xs rule: specStarts.induct) simp_all

lemma specStarts_Nil_iff [simp]: "specStarts c xs = [] \<longleftrightarrow> xs = []"
  by (cases xs) auto

lemma specStarts_first: "xs \<noteq> [] \<Longrightarrow> specStarts c xs ! 0 = max c (fst (xs ! 0))"
  by (cases xs) auto

lemma specStarts_next:
  "Suc i < length xs \<Longrightarrow>
     specStarts c xs ! Suc i = max (specStarts c xs ! i + snd (xs ! i)) (fst (xs ! Suc i))"
proof (induction c xs arbitrary: i rule: specStarts.induct)
  case (1 cursor)
  then show ?case by simp
next
  case (2 cursor now d rest)
  show ?case
  proof (cases i)
    case 0
    with 2 show ?thesis by (cases rest) auto
  next
    case (Suc j)
    with 2 show ?thesis by simp
  qed
qed

lemma specCursor_last:
  "xs \<noteq> [] \<Longrightarrow> specCursor c xs = last (specStarts c xs) + snd (last xs)"
  by (induction c xs rule: specStarts.induct) auto

section \<open>Playback scheduling\<close>

lemma scenario_eval:
  "startTimes (trace (deliver scenarioChunks liveState)) = [0, 1]"
  "nextStartTimeRef (deliver scenarioChunks liveState) = 5 / 2"
  by (simp_all add: scenarioChunks_def liveState_eq msg_defs event_defs Let_def)

text \<open>
  Claim C1. Gapless, non-overlapping playback. Audio chunks that decode are delivered in
  order to a session with an output context, each handler reading its own current time.
  The start times passed to \<open>sourceNode.start\<close> are: for the first chunk the maximum of
  the cursor and the current time; for every later chunk the maximum of its current time
  and the previous start plus the previous duration. So a chunk never starts before the
  previous one ends, and it starts exactly at that end when it is handled no later than
  that. After the last chunk the cursor is its start plus its duration.
\<close>

theorem gapless_playback:
  assumes "outputAudioContextRef s \<noteq> None" and "outputAnalyserRef s \<noteq> None"
    and "\<forall>(env, m) \<in> set chunks. isAudioChunk env m"
    and "starts = drop (length (startTimes (trace s))) (startTimes (trace (deliver chunks s)))"
  shows "length starts = length chunks
     \<and> (chunks \<noteq> [] \<longrightarrow> starts ! 0 = max (nextStartTimeRef s) (arrival chunks 0))
     \<and> (\<forall>i. Suc i < length chunks \<longrightarrow>
           starts ! Suc i = max (arrival chunks (Suc i)) (starts ! i + chunkDuration chunks i)
         \<and> starts ! Suc i \<ge> starts ! i + chunkDuration chunks i
         \<and> (arrival chunks (Suc i) \<le> starts ! i + chunkDuration chunks i
              \<longrightarrow> starts ! Suc i = starts ! i + chunkDuration chunks i))
     \<and> (chunks \<noteq> [] \<longrightarrow> nextStartTimeRef (deliver chunks s)
           = last starts + chunkDuration chunks (length chunks - 1))"
proof -
  let ?xs = "map timing chunks"
  have r: "startTimes (trace (deliver chunks s))
           = startTimes (trace s) @ specStarts (nextStartTimeRef s) ?xs"
    and c: "nextStartTimeRef (deliver chunks s) = specCursor (nextStartTimeRef s) ?xs"
    using deliver_refines_spec [OF assms(3) assms(1) assms(2)] by simp_all
  have starts: "starts = specStarts (nextStartTimeRef s) ?xs"
    using assms(4) r by simp
  have len: "length starts = length chunks"
    by (simp add: starts)
  have first: "chunks \<noteq> [] \<longrightarrow> starts ! 0 = max (nextStartTimeRef s) (arrival chunks 0)"
    by (simp add: starts specStarts_first arrival_def timing_def)
  have nxt: "starts ! Suc i = max (arrival chunks (Suc i)) (starts ! i + chunkDuration chunks i)"
    if "Suc i < length chunks" for i
    using that specStarts_next [of i ?xs "nextStartTimeRef s"]
    by (simp add: starts arrival_def chunkDuration_def timing_def max.commute)
  have lst: "chunks \<noteq> [] \<longrightarrow> nextStartTimeRef (deliver chunks s)
           = last starts + chunkDuration chunks (length chunks - 1)"
    by (simp add: c starts specCursor_last chunkDuration_def timing_def last_map last_conv_nth)
  show ?thesis
    using len first lst nxt by auto
qed

theorem gapless_playback_witness:
  "outputAudioContextRef liveState \<noteq> None \<and> outputAnalyserRef liveState \<noteq> None
   \<and> list_all (\<lambda>(env, m). isAudioChunk env m) scenarioChunks
   \<and> startTimes (trace (deliver scenarioChunks liveState)) = [0, 1]
   \<and> nextStartTimeRef (deliver scenarioChunks liveState) = 5 / 2"
proof -
  have h1: "outputAudioContextRef liveState \<noteq> None" by (simp add: liveState_eq)
  have h2: "outputAnalyserRef liveState \<noteq> None" by (simp add: liveState_eq)
  have h3: "\<forall>(env, m) \<in> set scenarioChunks. isAudioChunk env m"
    by (simp add: scenarioChunks_def isAudioChunk_def event_defs)
  show ?thesis
    using h1 h2 h3 gapless_playback [OF h1 h2 h3 refl]
    by (simp add: scenario_eval list_all_iff)
qed

section \<open>Cleanup\<close>

lemmas cleanup_defs = cleanup_def stopAllSources_def closeInputContext_def
  closeOutputContext_def resetAnalysers_def closeSession_def resetTranscripts_def
  resetStatus_def resetCursor_def emit_def

lemma cleanup_cleanup: "cleanup (cleanup s) = cleanup s"
  by (cases "inputAudioContextRef s"; cases "outputAudioContextRef s";
      cases "currentSessionRef s") (simp_all add: cleanup_defs)

lemma cleanup_result:
  "audioSourcesRef (cleanup s) = []"
  "inputAudioContextRef (cleanup s) = None"
  "outputAudioContextRef (cleanup s) = None"
  "inputAnalyserRef (cleanup s) = None"
  "outputAnalyserRef (cleanup s) = None"
  "currentSessionRef (cleanup s) = None"
  "sessionPromiseRef (cleanup s) = None"
  "currentUserTextRef (cleanup s) = []"
  "currentAiTextRef (cleanup s) = []"
  "nextStartTimeRef (cleanup s) = 0"
  "isConnected (cleanup s) = False"
  "isConnecting (cleanup s) = False"
  by (cases "inputAudioContextRef s"; cases "outputAudioContextRef s";
      cases "currentSessionRef s"; simp add: cleanup_defs)+

text \<open>
  Claim C7. Cleanup is idempotent. A second \<open>disconnect\<close> right after a first one, after
  \<open>onerror\<close>, after \<open>onclose\<close> or after the \<open>catch\<close> block of \<open>connect\<close> returns the
  state unchanged, the log of calls on sources, contexts and session included: nothing is
  stopped or closed a second time. After a cleanup no source is active, the context and
  analyser refs are null, both transcript buffers are empty, the cursor is 0 and the
  session is neither connected nor connecting.
\<close>

theorem disconnect_idempotent:
  "disconnect (disconnect s) = disconnect s
   \<and> disconnect (onerror s) = onerror s
   \<and> disconnect (onclose s) = onclose s
   \<and> disconnect (connectCatch err s) = connectCatch err s
   \<and> trace (disconnect (disconnect s)) = trace (disconnect s)
   \<and> audioSourcesRef (disconnect s) = []
   \<and> inputAudioContextRef (disconnect s) = None
   \<and> outputAudioContextRef (disconnect s) = None
   \<and> inputAnalyserRef (disconnect s) = None
   \<and> outputAnalyserRef (disconnect s) = None
   \<and> currentSessionRef (disconnect s) = None
   \<and> currentUserTextRef (disconnect s) = []
   \<and> currentAiTextRef (disconnect s) = []
   \<and> nextStartTimeRef (disconnect s) = 0
   \<and> \<not> isConnected (disconnect s) \<and> \<not> isConnecting (disconnect s)"
  by (simp add: disconnect_def onerror_def onclose_def connectCatch_def cleanup_cleanup
        cleanup_result)

section \<open>Transcripts and turns\<close>


lemma has_upd [simp]:
  "hasTranscriptCallback f (s\<lparr>trace := a\<rparr>) = hasTranscriptCallback f s"
  "hasTranscriptCallback f (s\<lparr>currentUserTextRef := b\<rparr>) = hasTranscriptCallback f s"
  "hasTranscriptCallback f (s\<lparr>currentAiTextRef := b\<rparr>) = hasTranscriptCallback f s"
  "hasTranscriptCallback f (s\<lparr>nextStartTimeRef := c\<rparr>) = hasTranscriptCallback f s"
  "hasTranscriptCallback f (s\<lparr>audioSourcesRef := d\<rparr>) = hasTranscriptCallback f s"
  "hasTranscriptCallback f (s\<lparr>nextId := n\<rparr>) = hasTranscriptCallback f s"
  "hasAudioCallback g (s\<lparr>trace := a\<rparr>) = hasAudioCallback g s"
  "hasAudioCallback g (s\<lparr>currentUserTextRef := b\<rparr>) = hasAudioCallback g s"
  "hasAudioCallback g (s\<lparr>currentAiTextRef := b\<rparr>) = hasAudioCallback g s"
  "hasAudioCallback g (s\<lparr>nextStartTimeRef := c\<rparr>) = hasAudioCallback g s"
  "hasAudioCallback g (s\<lparr>audioSourcesRef := d\<rparr>) = hasAudioCallback g s"
  "hasAudioCallback g (s\<lparr>nextId := n\<rparr>) = hasAudioCallback g s"
  by (simp_all add: hasTranscriptCallback_def hasAudioCallback_def)

lemma userCompletes_append [simp]: "userCompletes (xs @ ys) = userCompletes xs @ userCompletes ys"
  by (induction xs rule: userCompletes.induct) simp_all

lemma aiCompletes_append [simp]: "aiCompletes (xs @ ys) = aiCompletes xs @ aiCompletes ys"
  by (induction xs rule: aiCompletes.induct) simp_all

lemma completes_call [simp]:
  "userCompletes (tcall f e s) = (if hasTranscriptCallback f s then userCompletes [e] else [])"
  "userCompletes (acall g e s) = (if hasAudioCallback g s then userCompletes [e] else [])"
  "aiCompletes (tcall f e s) = (if hasTranscriptCallback f s then aiCompletes [e] else [])"
  "aiCompletes (acall g e s) = (if hasAudioCallback g s then aiCompletes [e] else [])"
  by (simp_all add: tcall_def acall_def)

lemma completes_stops [simp]:
  "userCompletes (map SourceStop ks) = []" "aiCompletes (map SourceStop ks) = []"
  "startTimes (map SourceStop ks) = []"
  by (induction ks) simp_all

lemma newEffects_append [simp]: "trace s' = trace s @ es \<Longrightarrow> newEffects s s' = es"
  by (simp add: newEffects_def)

lemma handleAudio_noctx:
  assumes "truthy (contentField inlineData c)" "outputAudioContextRef s = None"
  shows "handleAudio env c s = (EarlyReturn, closeUserTurn s)"
  using assms by (simp add: handleAudio_def closeUserTurn_eq Let_def)

lemma handleAudio_nodecode:
  assumes "truthy (contentField inlineData c)" "outputAudioContextRef s \<noteq> None"
    "decoded env = None"
  shows "handleAudio env c s =
    (Rejected, s\<lparr>trace := trace s
         @ (if userTurnCloses s
            then tcall onUserTranscriptionComplete (UserTranscriptionComplete (currentUserTextRef s)) s else [])
         @ (if audioSourcesRef s = [] then acall onSpeakingStateChange (SpeakingStateChange True) s else []),
       currentUserTextRef := (if userTurnCloses s then [] else currentUserTextRef s),
       nextStartTimeRef := max (nextStartTimeRef s) (currentTime env)\<rparr>)"
  using assms
  by (cases "audioSourcesRef s = []")
     (auto simp add: handleAudio_def closeUserTurn_eq callAudio_eq Let_def)

lemma handleAudio_noanalyser:
  assumes "truthy (contentField inlineData c)" "outputAudioContextRef s \<noteq> None"
    "decoded env \<noteq> None" "outputAnalyserRef s = None"
  shows "handleAudio env c s =
    (Rejected, s\<lparr>trace := trace s
         @ (if userTurnCloses s
            then tcall onUserTranscriptionComplete (UserTranscriptionComplete (currentUserTextRef s)) s else [])
         @ (if audioSourcesRef s = [] then acall onSpeakingStateChange (SpeakingStateChange True) s else []),
       currentUserTextRef := (if userTurnCloses s then [] else currentUserTextRef s),
       nextStartTimeRef := max (nextStartTimeRef s) (currentTime env),
       nextId := nextId s + 1\<rparr>)"
  using assms
  by (cases "audioSourcesRef s = []")
     (auto simp add: handleAudio_def closeUserTurn_eq callAudio_eq Let_def)

text \<open>The five ways through the handler.\<close>

lemma onmessage_cases [case_names none noctx nodecode noanalyser ok]:
  assumes "\<not> hasAudio m \<Longrightarrow> P"
    and "hasAudio m \<Longrightarrow> outputAudioContextRef s = None \<Longrightarrow> P"
    and "hasAudio m \<Longrightarrow> outputAudioContextRef s \<noteq> None \<Longrightarrow> decoded env = None \<Longrightarrow> P"
    and "hasAudio m \<Longrightarrow> outputAudioContextRef s \<noteq> None \<Longrightarrow> decoded env \<noteq> None
          \<Longrightarrow> outputAnalyserRef s = None \<Longrightarrow> P"
    and "hasAudio m \<Longrightarrow> outputAudioContextRef s \<noteq> None \<Longrightarrow> decoded env \<noteq> None
          \<Longrightarrow> outputAnalyserRef s \<noteq> None \<Longrightarrow> P"
  shows P
  using assms by blast

lemmas onmessage_simps = onmessage_def hasAudio_def Let_def block_eqs closeUserTurn_eq
  handleAudio_ok handleAudio_none handleAudio_noctx handleAudio_nodecode handleAudio_noanalyser
  userChunkCall_def aiChunkCall_def userTurnCloses_def userBuffer_def aiBuffer_def

lemma onmessage_user:
  "currentUserTextRef (snd (onmessage env m s))
     = (if hasAudio m \<and> userBuffer m s \<noteq> [] \<and> audioSourcesRef s = [] then [] else userBuffer m s)"
  "userCompletes (newEffects s (snd (onmessage env m s)))
     = (if hasAudio m \<and> userBuffer m s \<noteq> [] \<and> audioSourcesRef s = []
           \<and> hasTranscriptCallback onUserTranscriptionComplete s
        then [userBuffer m s] else [])"
  by (rule onmessage_cases [where m = m and s = s and env = env]; simp add: onmessage_simps)+


lemma onmessage_ai:
  "currentAiTextRef (snd (onmessage env m s))
     = (if fst (onmessage env m s) = Completed
           \<and> (contentFlag turnComplete (serverContent m) \<or> contentFlag interrupted (serverContent m))
        then [] else aiBuffer m s)"
  "aiCompletes (newEffects s (snd (onmessage env m s)))
     = (if fst (onmessage env m s) = Completed \<and> contentFlag turnComplete (serverContent m)
           \<and> hasTranscriptCallback onAiTranscriptionComplete s
        then [aiBuffer m s] else [])"
  by (rule onmessage_cases [where m = m and s = s and env = env]; simp add: onmessage_simps)+

lemma onmessage_outcome:
  "fst (onmessage env m s) = Completed \<longleftrightarrow>
     (hasAudio m \<longrightarrow> outputAudioContextRef s \<noteq> None \<and> decoded env \<noteq> None \<and> outputAnalyserRef s \<noteq> None)"
  by (rule onmessage_cases [where m = m and s = s and env = env]; simp add: onmessage_simps)

lemma startTimes_chunkCalls [simp]:
  "startTimes (userChunkCall c s) = []" "startTimes (aiChunkCall c s) = []"
  by (simp_all add: userChunkCall_def aiChunkCall_def)

lemma tcall_supplied: "hasTranscriptCallback f s \<Longrightarrow> tcall f e s = [e]"
  by (simp add: tcall_def)

lemma onmessage_user_first:
  assumes "hasAudio m" "audioSourcesRef s = []" "userBuffer m s \<noteq> []"
    "hasTranscriptCallback onUserTranscriptionComplete s"
  shows "\<exists>after. newEffects s (snd (onmessage env m s))
           = userChunkCall (serverContent m) s @ aiChunkCall (serverContent m) s
             @ UserTranscriptionComplete (userBuffer m s) # after"
  using assms
  by (rule_tac onmessage_cases [where m = m and s = s and env = env];
      simp add: onmessage_simps tcall_supplied)

text \<open>
  Claim C3. Implicit user-turn boundary. A message with audio is handled while no source
  is active. If the user buffer, with the chunk of the same message appended, is not empty,
  the handler clears it and, when \<open>onUserTranscriptionComplete\<close> is supplied, hands it
  to that callback exactly once, before any call of \<open>sourceNode.start\<close>. If it is empty,
  the callback is not called.
\<close>

theorem user_turn_closed_at_audio_onset:
  assumes "hasAudio m" and "audioSourcesRef s = []"
  shows "(userBuffer m s \<noteq> [] \<longrightarrow>
            currentUserTextRef (snd (onmessage env m s)) = []
          \<and> (hasTranscriptCallback onUserTranscriptionComplete s \<longrightarrow>
                userCompletes (newEffects s (snd (onmessage env m s))) = [userBuffer m s]
              \<and> (\<exists>before after.
                    newEffects s (snd (onmessage env m s))
                      = before @ UserTranscriptionComplete (userBuffer m s) # after
                  \<and> startTimes before = [])))
       \<and> (userBuffer m s = [] \<longrightarrow>
            userCompletes (newEffects s (snd (onmessage env m s))) = []
          \<and> currentUserTextRef (snd (onmessage env m s)) = [])"
proof -
  have "\<exists>before after.
          newEffects s (snd (onmessage env m s))
            = before @ UserTranscriptionComplete (userBuffer m s) # after
        \<and> startTimes before = []"
    if ub: "userBuffer m s \<noteq> []" and cb: "hasTranscriptCallback onUserTranscriptionComplete s"
  proof -
    obtain after where "newEffects s (snd (onmessage env m s))
           = (userChunkCall (serverContent m) s @ aiChunkCall (serverContent m) s)
             @ UserTranscriptionComplete (userBuffer m s) # after"
      using onmessage_user_first [OF assms ub cb] by auto
    moreover have "startTimes (userChunkCall (serverContent m) s @ aiChunkCall (serverContent m) s) = []"
      by simp
    ultimately show ?thesis by blast
  qed
  then show ?thesis
    using assms by (simp add: onmessage_user)
qed

lemma spokenState_eq:
  "spokenState = liveState\<lparr>currentUserTextRef := ''hihihi'',
     trace := trace liveState @ [UserTranscriptionChunk ''hi'', UserTranscriptionChunk ''hi'',
                                 UserTranscriptionChunk ''hi'']\<rparr>"
  by (simp add: spokenState_def liveState_eq msg_defs event_defs Let_def)

theorem user_turn_closed_at_audio_onset_witness:
  "hasAudio (audio_chunk ''UklGRg=='') \<and> audioSourcesRef spokenState = []
   \<and> userBuffer (audio_chunk ''UklGRg=='') spokenState = ''hihihi''
   \<and> hasTranscriptCallback onUserTranscriptionComplete spokenState
   \<and> newEffects spokenState (snd (onmessage (reading 0 1) (audio_chunk ''UklGRg=='') spokenState))
       = [UserTranscriptionComplete ''hihihi'', SpeakingStateChange True, SourceStart 6 0,
          AudioLevel None]
   \<and> userCompletes (newEffects spokenState
         (snd (onmessage (reading 0 1) (audio_chunk ''UklGRg=='') spokenState))) = [''hihihi'']
   \<and> currentUserTextRef (snd (onmessage (reading 0 1) (audio_chunk ''UklGRg=='') spokenState)) = []
   \<and> audioSourcesRef liveState = []
   \<and> userBuffer (audio_chunk ''UklGRg=='') liveState = []
   \<and> userCompletes (newEffects liveState
         (snd (onmessage (reading 0 1) (audio_chunk ''UklGRg=='') liveState))) = []"
proof -
  have h1: "hasAudio (audio_chunk ''UklGRg=='')"
    by (simp add: hasAudio_def event_defs)
  have h2: "audioSourcesRef spokenState = []"
    by (simp add: spokenState_eq liveState_eq)
  have h3: "userBuffer (audio_chunk ''UklGRg=='') spokenState = ''hihihi''"
    by (simp add: userBuffer_def spokenState_eq event_defs)
  have h4: "hasTranscriptCallback onUserTranscriptionComplete spokenState"
    by (simp add: spokenState_eq liveState_eq hasTranscriptCallback_def)
  have ev: "newEffects spokenState (snd (onmessage (reading 0 1) (audio_chunk ''UklGRg=='') spokenState))
       = [UserTranscriptionComplete ''hihihi'', SpeakingStateChange True, SourceStart 6 0,
          AudioLevel None]"
    by (simp add: newEffects_def spokenState_eq liveState_eq msg_defs event_defs Let_def)
  have h5: "audioSourcesRef liveState = []"
    by (simp add: liveState_eq)
  have h6: "userBuffer (audio_chunk ''UklGRg=='') liveState = []"
    by (simp add: userBuffer_def liveState_eq event_defs)
  show ?thesis
    using h1 h2 h3 h4 h5 h6 ev
      user_turn_closed_at_audio_onset [OF h1 h2, of "reading 0 1"]
      user_turn_closed_at_audio_onset [OF h1 h5, of "reading 0 1"]
    by simp
qed

section \<open>Interruption\<close>


lemma stops_append [simp]: "stops (xs @ ys) = stops xs @ stops ys"
  by (induction xs rule: stops.induct) simp_all

lemma stops_call [simp]:
  "stops (tcall f e s) = (if hasTranscriptCallback f s then stops [e] else [])"
  "stops (acall g e s) = (if hasAudioCallback g s then stops [e] else [])"
  by (simp_all add: tcall_def acall_def)

lemma stops_map [simp]: "stops (map SourceStop ks) = ks"
  by (induction ks) simp_all

lemma stops_chunkCalls [simp]:
  "stops (userChunkCall c s) = []" "stops (aiChunkCall c s) = []"
  by (simp_all add: userChunkCall_def aiChunkCall_def)

lemma onmessage_completed:
  assumes "fst (onmessage env m s) = Completed"
  shows "(\<not> hasAudio m) \<or> (hasAudio m \<and> outputAudioContextRef s \<noteq> None \<and> decoded env \<noteq> None \<and> outputAnalyserRef s \<noteq> None)"
  using assms by (auto simp add: onmessage_outcome)

lemma onmessage_interrupted:
  assumes "contentFlag interrupted (serverContent m)" and "fst (onmessage env m s) = Completed"
  shows "stops (newEffects s (snd (onmessage env m s))) = activeSources m s"
    and "audioSourcesRef (snd (onmessage env m s)) = []"
    and "nextStartTimeRef (snd (onmessage env m s)) = 0"
    and "outputAudioContextRef (snd (onmessage env m s)) = outputAudioContextRef s"
    and "outputAnalyserRef (snd (onmessage env m s)) = outputAnalyserRef s"
    and "\<exists>before. newEffects s (snd (onmessage env m s))
           = before @ map SourceStop (activeSources m s) @ tcall onInterrupted Interrupted s
               @ acall onSpeakingStateChange (SpeakingStateChange False) s"
proof -
  consider (none) "\<not> hasAudio m"
    | (ok) "hasAudio m" "outputAudioContextRef s \<noteq> None" "decoded env \<noteq> None"
        "outputAnalyserRef s \<noteq> None"
    using onmessage_completed [OF assms(2)] by blast
  note c = this
  show "stops (newEffects s (snd (onmessage env m s))) = activeSources m s"
    using assms(1) by (cases rule: c) (simp_all add: onmessage_simps activeSources_def)
  show "audioSourcesRef (snd (onmessage env m s)) = []"
    using assms(1) by (cases rule: c) (simp_all add: onmessage_simps)
  show "nextStartTimeRef (snd (onmessage env m s)) = 0"
    using assms(1) by (cases rule: c) (simp_all add: onmessage_simps)
  show "outputAudioContextRef (snd (onmessage env m s)) = outputAudioContextRef s"
    using assms(1) by (cases rule: c) (simp_all add: onmessage_simps)
  show "outputAnalyserRef (snd (onmessage env m s)) = outputAnalyserRef s"
    using assms(1) by (cases rule: c) (simp_all add: onmessage_simps)
  show "\<exists>before. newEffects s (snd (onmessage env m s))
           = before @ map SourceStop (activeSources m s) @ tcall onInterrupted Interrupted s
               @ acall onSpeakingStateChange (SpeakingStateChange False) s"
    using assms(1) by (cases rule: c) (simp_all add: onmessage_simps activeSources_def)
qed


lemma onmessage_start:
  assumes "hasAudio m" "decoded env \<noteq> None" "outputAudioContextRef s \<noteq> None"
    "outputAnalyserRef s \<noteq> None"
  shows "startTimes (newEffects s (snd (onmessage env m s)))
           = [max (nextStartTimeRef s) (currentTime env)]"
  using assms by (simp add: onmessage_simps)

text \<open>
  Claim C2. Interruption resets the timeline and discards uncommitted output. A message
  with the \<open>interrupted\<close> flag is handled and the handler runs to its end. Then \<open>stop\<close> is
  called on every source of the active set, the active set is empty afterwards, the cursor
  is 0, so that the next audio chunk, handled at a current time that is not negative,
  starts at that time, and the AI buffer is empty. The interruption contributes the stops
  and the callbacks \<open>onInterrupted\<close> and \<open>onSpeakingStateChange(false)\<close> to the log;
  unless the same message also carries \<open>turnComplete\<close>, \<open>onAiTranscriptionComplete\<close> is
  not called.
\<close>

theorem interruption_resets_timeline:
  assumes "contentFlag interrupted (serverContent m)"
    and "fst (onmessage env m s) = Completed"
    and "s' = snd (onmessage env m s)"
  shows "stops (newEffects s s') = activeSources m s
     \<and> audioSourcesRef s' = []
     \<and> nextStartTimeRef s' = 0
     \<and> currentAiTextRef s' = []
     \<and> (\<not> contentFlag turnComplete (serverContent m) \<longrightarrow> aiCompletes (newEffects s s') = [])
     \<and> (\<exists>before. newEffects s s'
            = before @ map SourceStop (activeSources m s) @ tcall onInterrupted Interrupted s
                @ acall onSpeakingStateChange (SpeakingStateChange False) s)
     \<and> (\<forall>env2 m2. hasAudio m2 \<and> decoded env2 \<noteq> None \<and> 0 \<le> currentTime env2
            \<and> outputAudioContextRef s \<noteq> None \<and> outputAnalyserRef s \<noteq> None
          \<longrightarrow> startTimes (newEffects s' (snd (onmessage env2 m2 s'))) = [currentTime env2])"
proof -
  note i = onmessage_interrupted [OF assms(1,2), folded assms(3)]
  have ai: "currentAiTextRef s' = []"
    "\<not> contentFlag turnComplete (serverContent m) \<longrightarrow> aiCompletes (newEffects s s') = []"
    using assms by (simp_all add: onmessage_ai)
  have nxt: "startTimes (newEffects s' (snd (onmessage env2 m2 s'))) = [currentTime env2]"
    if "hasAudio m2" "decoded env2 \<noteq> None" "0 \<le> currentTime env2"
      "outputAudioContextRef s \<noteq> None" "outputAnalyserRef s \<noteq> None" for env2 m2
    using that onmessage_start [of m2 env2 s'] by (simp add: i)
  show ?thesis
    using i(1,2,3,6) ai nxt by blast
qed

lemma speakingState_eq:
  "speakingState = liveState\<lparr>currentAiTextRef := ''Once upon'', audioSourcesRef := [6],
     nextStartTimeRef := 2, nextId := 7,
     trace := trace liveState @ [AiTranscriptionChunk ''Once upon'', SpeakingStateChange True,
                                 SourceStart 6 0, AudioLevel None]\<rparr>"
  by (simp add: speakingState_def liveState_eq msg_defs event_defs Let_def)

theorem interruption_resets_timeline_witness:
  "contentFlag interrupted (serverContent interrupted_event)
   \<and> \<not> contentFlag turnComplete (serverContent interrupted_event)
   \<and> aiCompletes (newEffects speakingState
         (snd (onmessage (reading (1/2) 0) interrupted_event speakingState))) = []
   \<and> fst (onmessage (reading (1/2) 0) interrupted_event speakingState) = Completed
   \<and> audioSourcesRef speakingState = [6] \<and> nextStartTimeRef speakingState = 2
   \<and> currentAiTextRef speakingState = ''Once upon''
   \<and> newEffects speakingState (snd (onmessage (reading (1/2) 0) interrupted_event speakingState))
       = [SourceStop 6, Interrupted, SpeakingStateChange False]
   \<and> audioSourcesRef (snd (onmessage (reading (1/2) 0) interrupted_event speakingState)) = []
   \<and> nextStartTimeRef (snd (onmessage (reading (1/2) 0) interrupted_event speakingState)) = 0
   \<and> currentAiTextRef (snd (onmessage (reading (1/2) 0) interrupted_event speakingState)) = []
   \<and> startTimes (newEffects (snd (onmessage (reading (1/2) 0) interrupted_event speakingState))
        (snd (onmessage (reading (7/10) 1) (audio_chunk ''UklGRg=='')
           (snd (onmessage (reading (1/2) 0) interrupted_event speakingState))))) = [7/10]"
proof -
  have h1: "contentFlag interrupted (serverContent interrupted_event)"
    "\<not> contentFlag turnComplete (serverContent interrupted_event)"
    by (simp_all add: event_defs)
  have h2: "fst (onmessage (reading (1/2) 0) interrupted_event speakingState) = Completed"
    by (simp add: onmessage_outcome hasAudio_def event_defs)
  have st: "audioSourcesRef speakingState = [6]" "nextStartTimeRef speakingState = 2"
    "currentAiTextRef speakingState = ''Once upon''"
    "outputAudioContextRef speakingState \<noteq> None" "outputAnalyserRef speakingState \<noteq> None"
    by (simp_all add: speakingState_eq liveState_eq)
  have ev: "newEffects speakingState (snd (onmessage (reading (1/2) 0) interrupted_event speakingState))
       = [SourceStop 6, Interrupted, SpeakingStateChange False]"
    by (simp add: newEffects_def speakingState_eq liveState_eq msg_defs event_defs Let_def)
  have a: "hasAudio (audio_chunk ''UklGRg=='')" "decoded (reading (7/10) 1) \<noteq> None"
    "0 \<le> currentTime (reading (7/10) 1)" "currentTime (reading (7/10) 1) = 7/10"
    by (simp_all add: hasAudio_def event_defs)
  show ?thesis
    using h1 h2 st ev a interruption_resets_timeline [OF h1(1) h2 refl]
    by simp
qed

section \<open>Emission of the transcript buffers\<close>


lemma onmessage_trace: "\<exists>es. trace (snd (onmessage env m s)) = trace s @ es"
  by (rule onmessage_cases [where m = m and s = s and env = env]; simp add: onmessage_simps)

lemma onmessage_configRef [simp]: "configRef (snd (onmessage env m s)) = configRef s"
  by (rule onmessage_cases [where m = m and s = s and env = env]; simp add: onmessage_simps)

lemma deliver_trace: "\<exists>es. trace (deliver msgs s) = trace s @ es"
proof (induction msgs arbitrary: s)
  case Nil
  then show ?case by simp
next
  case (Cons p rest)
  obtain env m where p: "p = (env, m)" by (cases p)
  obtain a where a: "trace (snd (onmessage env m s)) = trace s @ a"
    using onmessage_trace by blast
  obtain b where "trace (deliver rest (snd (onmessage env m s))) = trace (snd (onmessage env m s)) @ b"
    using Cons.IH by blast
  then show ?case by (simp add: p a)
qed

lemma newEffects_Cons:
  "newEffects s (deliver rest (snd (onmessage env m s)))
     = newEffects s (snd (onmessage env m s))
       @ newEffects (snd (onmessage env m s)) (deliver rest (snd (onmessage env m s)))"
proof -
  obtain a where a: "trace (snd (onmessage env m s)) = trace s @ a"
    using onmessage_trace by blast
  obtain b where b: "trace (deliver rest (snd (onmessage env m s))) = trace (snd (onmessage env m s)) @ b"
    using deliver_trace by blast
  show ?thesis by (simp add: newEffects_def a b)
qed

lemma newEffects_same [simp]: "newEffects s s = []"
  by (simp add: newEffects_def)

lemma received_Nil [simp]: "received f [] = []"
  by (simp add: received_def)

lemma received_Cons [simp]:
  "received f ((env, m) # rest) = textOf (contentField f (serverContent m)) @ received f rest"
  by (simp add: received_def)

lemma hasT_onmessage [simp]:
  "hasTranscriptCallback f (snd (onmessage env m s)) = hasTranscriptCallback f s"
  by (simp add: hasTranscriptCallback_def)

lemma ai_step_subseq:
  "subseq (concat (aiCompletes (newEffects s (snd (onmessage env m s))))
            @ currentAiTextRef (snd (onmessage env m s))) (aiBuffer m s)"
  by (simp add: onmessage_ai)

lemma user_step_subseq:
  "subseq (concat (userCompletes (newEffects s (snd (onmessage env m s))))
            @ currentUserTextRef (snd (onmessage env m s))) (userBuffer m s)"
  by (simp add: onmessage_user)

lemma ai_at_most_once:
  "subseq (concat (aiCompletes (newEffects s (deliver msgs s))) @ currentAiTextRef (deliver msgs s))
          (currentAiTextRef s @ received outputTranscription msgs)"
proof (induction msgs arbitrary: s)
  case Nil
  then show ?case by simp
next
  case (Cons p rest)
  obtain env m where p: "p = (env, m)" by (cases p)
  let ?s1 = "snd (onmessage env m s)"
  let ?e1 = "concat (aiCompletes (newEffects s ?s1))"
  let ?e2 = "concat (aiCompletes (newEffects ?s1 (deliver rest ?s1)))"
  have a: "subseq (?e1 @ (?e2 @ currentAiTextRef (deliver rest ?s1)))
               (?e1 @ (currentAiTextRef ?s1 @ received outputTranscription rest))"
    using Cons.IH [of ?s1] by (simp only: subseq_append')
  have b: "subseq ((?e1 @ currentAiTextRef ?s1) @ received outputTranscription rest)
                  (aiBuffer m s @ received outputTranscription rest)"
    by (rule list_emb_append_mono [OF ai_step_subseq]) simp
  have "subseq (?e1 @ (?e2 @ currentAiTextRef (deliver rest ?s1)))
               (aiBuffer m s @ received outputTranscription rest)"
    using a b by (simp only: append_assoc)
  then show ?case
    by (simp add: p newEffects_Cons aiBuffer_def)
qed

lemma user_at_most_once:
  "subseq (concat (userCompletes (newEffects s (deliver msgs s))) @ currentUserTextRef (deliver msgs s))
          (currentUserTextRef s @ received inputTranscription msgs)"
proof (induction msgs arbitrary: s)
  case Nil
  then show ?case by simp
next
  case (Cons p rest)
  obtain env m where p: "p = (env, m)" by (cases p)
  let ?s1 = "snd (onmessage env m s)"
  let ?e1 = "concat (userCompletes (newEffects s ?s1))"
  let ?e2 = "concat (userCompletes (newEffects ?s1 (deliver rest ?s1)))"
  have a: "subseq (?e1 @ (?e2 @ currentUserTextRef (deliver rest ?s1)))
               (?e1 @ (currentUserTextRef ?s1 @ received inputTranscription rest))"
    using Cons.IH [of ?s1] by (simp only: subseq_append')
  have b: "subseq ((?e1 @ currentUserTextRef ?s1) @ received inputTranscription rest)
                  (userBuffer m s @ received inputTranscription rest)"
    by (rule list_emb_append_mono [OF user_step_subseq]) simp
  have "subseq (?e1 @ (?e2 @ currentUserTextRef (deliver rest ?s1)))
               (userBuffer m s @ received inputTranscription rest)"
    using a b by (simp only: append_assoc)
  then show ?case
    by (simp add: p newEffects_Cons userBuffer_def)
qed

lemma user_exactly_once:
  assumes "hasTranscriptCallback onUserTranscriptionComplete s"
  shows "concat (userCompletes (newEffects s (deliver msgs s))) @ currentUserTextRef (deliver msgs s)
          = currentUserTextRef s @ received inputTranscription msgs"
  using assms
proof (induction msgs arbitrary: s)
  case Nil
  then show ?case by simp
next
  case (Cons p rest)
  obtain env m where p: "p = (env, m)" by (cases p)
  let ?s1 = "snd (onmessage env m s)"
  have step: "concat (userCompletes (newEffects s ?s1)) @ currentUserTextRef ?s1 = userBuffer m s"
    using Cons.prems by (simp add: onmessage_user)
  have "hasTranscriptCallback onUserTranscriptionComplete ?s1"
    using Cons.prems by simp
  from Cons.IH [OF this]
  have "concat (userCompletes (newEffects s ?s1))
          @ (concat (userCompletes (newEffects ?s1 (deliver rest ?s1)))
             @ currentUserTextRef (deliver rest ?s1))
        = (concat (userCompletes (newEffects s ?s1)) @ currentUserTextRef ?s1)
          @ received inputTranscription rest"
    by simp
  then show ?case
    by (simp add: p newEffects_Cons step userBuffer_def)
qed

lemma ai_exactly_once:
  assumes "hasTranscriptCallback onAiTranscriptionComplete s"
    and "\<forall>(env, m) \<in> set msgs. \<not> contentFlag interrupted (serverContent m)"
  shows "concat (aiCompletes (newEffects s (deliver msgs s))) @ currentAiTextRef (deliver msgs s)
          = currentAiTextRef s @ received outputTranscription msgs"
  using assms
proof (induction msgs arbitrary: s)
  case Nil
  then show ?case by simp
next
  case (Cons p rest)
  obtain env m where p: "p = (env, m)" by (cases p)
  let ?s1 = "snd (onmessage env m s)"
  have step: "concat (aiCompletes (newEffects s ?s1)) @ currentAiTextRef ?s1 = aiBuffer m s"
    using Cons.prems by (auto simp add: p onmessage_ai)
  have "hasTranscriptCallback onAiTranscriptionComplete ?s1"
    "\<forall>(env, m) \<in> set rest. \<not> contentFlag interrupted (serverContent m)"
    using Cons.prems by simp_all
  from Cons.IH [OF this]
  have "concat (aiCompletes (newEffects s ?s1))
          @ (concat (aiCompletes (newEffects ?s1 (deliver rest ?s1)))
             @ currentAiTextRef (deliver rest ?s1))
        = (concat (aiCompletes (newEffects s ?s1)) @ currentAiTextRef ?s1)
          @ received outputTranscription rest"
    by simp
  then show ?case
    by (simp add: p newEffects_Cons step aiBuffer_def)
qed


lemma onmessage_turnComplete:
  assumes "contentFlag turnComplete (serverContent m)" and "fst (onmessage env m s) = Completed"
  shows "\<exists>before after. newEffects s (snd (onmessage env m s))
           = before @ tcall onAiTranscriptionComplete (AiTranscriptionComplete (aiBuffer m s)) s
               @ tcall onTurnComplete TurnComplete s @ after"
proof -
  consider (none) "\<not> hasAudio m"
    | (ok) "hasAudio m" "outputAudioContextRef s \<noteq> None" "decoded env \<noteq> None"
        "outputAnalyserRef s \<noteq> None"
    using onmessage_completed [OF assms(2)] by blast
  then show ?thesis
  proof cases
    case none
    have "newEffects s (snd (onmessage env m s))
           = (userChunkCall (serverContent m) s @ aiChunkCall (serverContent m) s)
             @ tcall onAiTranscriptionComplete (AiTranscriptionComplete (aiBuffer m s)) s
             @ tcall onTurnComplete TurnComplete s
             @ newEffects (handleTurnComplete (serverContent m)
                  (handleOutputTranscription (serverContent m)
                     (handleInputTranscription (serverContent m) s)))
                 (snd (onmessage env m s))"
      using assms(1) none by (simp add: onmessage_simps)
    then show ?thesis by blast
  next
    case ok
    have "newEffects s (snd (onmessage env m s))
           = (userChunkCall (serverContent m) s @ aiChunkCall (serverContent m) s
                @ newEffects (handleOutputTranscription (serverContent m)
                     (handleInputTranscription (serverContent m) s))
                   (snd (handleAudio env (serverContent m)
                      (handleOutputTranscription (serverContent m)
                        (handleInputTranscription (serverContent m) s)))))
             @ tcall onAiTranscriptionComplete (AiTranscriptionComplete (aiBuffer m s)) s
             @ tcall onTurnComplete TurnComplete s
             @ newEffects (handleTurnComplete (serverContent m)
                  (snd (handleAudio env (serverContent m)
                      (handleOutputTranscription (serverContent m)
                        (handleInputTranscription (serverContent m) s)))))
                 (snd (onmessage env m s))"
      using assms(1) ok by (simp add: onmessage_simps)
    then show ?thesis by blast
  qed
qed

text \<open>
  Claim C4. At-most-once emission and the meaning of \<open>turnComplete\<close>. When a message with
  the \<open>turnComplete\<close> flag is handled to the end, \<open>onAiTranscriptionComplete\<close> (if
  supplied) receives the whole AI buffer, empty or not, exactly once, \<open>onTurnComplete\<close> is
  called right after it, and the AI buffer is empty afterwards. For every list of messages
  the texts handed to a completion callback, followed by what is left in the buffer, are
  a subsequence of the initial buffer followed by the chunks received: no text is emitted
  twice. When the callback is supplied they are exactly that text: always for the user
  buffer, and for the AI buffer when no message is an interruption.
\<close>

theorem transcript_emitted_at_most_once:
  "(contentFlag turnComplete (serverContent m) \<and> fst (onmessage env m s) = Completed \<longrightarrow>
       aiCompletes (newEffects s (snd (onmessage env m s)))
         = (if hasTranscriptCallback onAiTranscriptionComplete s then [aiBuffer m s] else [])
     \<and> (\<exists>before after. newEffects s (snd (onmessage env m s))
           = before @ tcall onAiTranscriptionComplete (AiTranscriptionComplete (aiBuffer m s)) s
               @ tcall onTurnComplete TurnComplete s @ after)
     \<and> currentAiTextRef (snd (onmessage env m s)) = [])
   \<and> subseq (concat (aiCompletes (newEffects s (deliver msgs s))) @ currentAiTextRef (deliver msgs s))
             (currentAiTextRef s @ received outputTranscription msgs)
   \<and> subseq (concat (userCompletes (newEffects s (deliver msgs s))) @ currentUserTextRef (deliver msgs s))
             (currentUserTextRef s @ received inputTranscription msgs)
   \<and> (hasTranscriptCallback onAiTranscriptionComplete s
        \<and> (\<forall>(env, m) \<in> set msgs. \<not> contentFlag interrupted (serverContent m)) \<longrightarrow>
       concat (aiCompletes (newEffects s (deliver msgs s))) @ currentAiTextRef (deliver msgs s)
         = currentAiTextRef s @ received outputTranscription msgs)
   \<and> (hasTranscriptCallback onUserTranscriptionComplete s \<longrightarrow>
       concat (userCompletes (newEffects s (deliver msgs s))) @ currentUserTextRef (deliver msgs s)
         = currentUserTextRef s @ received inputTranscription msgs)"
  using onmessage_turnComplete [of m env s] ai_at_most_once [of s msgs]
    user_at_most_once [of s msgs] ai_exactly_once [of s msgs] user_exactly_once [of s msgs]
  by (simp add: onmessage_ai)

theorem transcript_emitted_at_most_once_witness:
  "contentFlag turnComplete (serverContent turn_complete)
   \<and> fst (onmessage (reading 1 0) turn_complete speakingState) = Completed
   \<and> hasTranscriptCallback onAiTranscriptionComplete speakingState
   \<and> hasTranscriptCallback onUserTranscriptionComplete speakingState
   \<and> list_all (\<lambda>(env, m). \<not> contentFlag interrupted (serverContent m)) twoTurns
   \<and> newEffects speakingState (snd (onmessage (reading 1 0) turn_complete speakingState))
       = [AiTranscriptionComplete ''Once upon'', TurnComplete]
   \<and> currentAiTextRef (snd (onmessage (reading 1 0) turn_complete speakingState)) = []
   \<and> aiCompletes (newEffects speakingState (deliver twoTurns speakingState))
       = [''Once upon a time'', ''Next'']
   \<and> currentAiTextRef (deliver twoTurns speakingState) = []
   \<and> currentAiTextRef speakingState @ received outputTranscription twoTurns
       = ''Once upon a timeNext''"
proof -
  have h1: "contentFlag turnComplete (serverContent turn_complete)"
    by (simp add: event_defs)
  have h2: "fst (onmessage (reading 1 0) turn_complete speakingState) = Completed"
    by (simp add: onmessage_outcome hasAudio_def event_defs)
  have h3: "hasTranscriptCallback onAiTranscriptionComplete speakingState"
    "hasTranscriptCallback onUserTranscriptionComplete speakingState"
    by (simp_all add: speakingState_eq liveState_eq hasTranscriptCallback_def)
  have h4: "list_all (\<lambda>(env, m). \<not> contentFlag interrupted (serverContent m)) twoTurns"
    by (simp add: twoTurns_def event_defs)
  have e1: "newEffects speakingState (snd (onmessage (reading 1 0) turn_complete speakingState))
       = [AiTranscriptionComplete ''Once upon'', TurnComplete]"
    by (simp add: newEffects_def speakingState_eq liveState_eq msg_defs event_defs Let_def)
  have e2: "aiCompletes (newEffects speakingState (deliver twoTurns speakingState))
       = [''Once upon a time'', ''Next'']"
    by (simp add: newEffects_def twoTurns_def speakingState_eq liveState_eq msg_defs event_defs Let_def)
  have e3: "currentAiTextRef speakingState @ received outputTranscription twoTurns
       = ''Once upon a timeNext''"
    by (simp add: twoTurns_def speakingState_eq liveState_eq event_defs)
  show ?thesis
    using h1 h2 h3 h4 e1 e2 e3
      transcript_emitted_at_most_once [of turn_complete "reading 1 0" speakingState twoTurns]
    by (simp add: list_all_iff)
qed

section \<open>connect\<close>


lemma connect_granted:
  assumes "granted env"
  shows "connect env config s =
    s\<lparr>configRef := config, isConnecting := True, error := None,
      currentUserTextRef := [], currentAiTextRef := [],
      inputAudioContextRef := Some (nextId s), outputAudioContextRef := Some (nextId s + 1),
      inputAnalyserRef := Some (nextId s + 2), outputAnalyserRef := Some (nextId s + 3),
      sessionPromiseRef := Some (nextId s + 5),
      trace := trace s @ [NewAudioContext (nextId s) 16000, NewAudioContext (nextId s + 1) 24000,
        GetUserMedia (nextId s + 4),
        LiveConnect (nextId s + 5) (orElse (voiceName config) ''Kore'')
          (orElse (systemInstruction config)
             ''You are a helpful, witty, and concise AI assistant. Keep your responses short and conversational.'')],
      allocated := allocated s @ [Context (nextId s), Context (nextId s + 1),
        MicStream (nextId s + 4), Session (nextId s + 5)],
      nextId := nextId s + 6\<rparr>"
  using assms
  by (simp add: granted_def connect_def createAudioGraph_def openSession_def emit_def Let_def)

lemma connectingState_eq:
  "connectingState = liveState\<lparr>isConnected := False, isConnecting := True, audioProcessHandlers := []\<rparr>"
  by (simp add: connectingState_def liveState_eq connect_def createAudioGraph_def openSession_def
        emit_def initialState_def grantedEnv_def Let_def)

lemma granted_grantedEnv: "granted grantedEnv"
  by (simp add: granted_def grantedEnv_def)

text \<open>
  Claim C5, as the code has it. \<open>connect\<close> has no guard on the connection status. Every
  call that finds the API key, \<open>mediaDevices\<close> and an \<open>AudioContext\<close> class and is granted
  the microphone creates two audio contexts, acquires a microphone stream and opens a new
  session with \<open>ai.live.connect\<close>, whatever \<open>isConnecting\<close> and \<open>isConnected\<close> are. It
  closes no session, and stores the new session promise in place of the old one.
\<close>

theorem connect_has_no_guard:
  assumes "granted env"
  shows "sessionsOpened (newEffects s (connect env config s)) = [nextId s + 5]
     \<and> sessionsClosed (newEffects s (connect env config s)) = []
     \<and> sessionPromiseRef (connect env config s) = Some (nextId s + 5)
     \<and> allocated (connect env config s)
         = allocated s @ [Context (nextId s), Context (nextId s + 1),
                          MicStream (nextId s + 4), Session (nextId s + 5)]
     \<and> isConnecting (connect env config s)
     \<and> isConnected (connect env config s) = isConnected s"
  by (simp add: connect_granted [OF assms] newEffects_def)

theorem connect_has_no_guard_witness:
  "granted grantedEnv \<and> isConnected liveState \<and> nextId liveState = 6
   \<and> sessionsOpened (newEffects liveState (connect grantedEnv allCallbacks liveState)) = [11]
   \<and> sessionsClosed (newEffects liveState (connect grantedEnv allCallbacks liveState)) = []
   \<and> sessionPromiseRef (connect grantedEnv allCallbacks liveState) = Some 11"
  using connect_has_no_guard [OF granted_grantedEnv, of liveState allCallbacks]
  by (simp add: granted_grantedEnv liveState_eq)

text \<open>
  A second call while connecting, or while connected, is not a no-op: it opens session 11
  while session 5 stays open.
\<close>

theorem connect_twice_counterexample:
  "isConnecting connectingState \<and> isConnected liveState
   \<and> connect grantedEnv allCallbacks connectingState \<noteq> connectingState
   \<and> connect grantedEnv allCallbacks liveState \<noteq> liveState
   \<and> sessionsOpened (trace (connect grantedEnv allCallbacks connectingState)) = [5, 11]
   \<and> sessionsClosed (trace (connect grantedEnv allCallbacks connectingState)) = []
   \<and> sessionsOpened (trace (connect grantedEnv allCallbacks liveState)) = [5, 11]
   \<and> sessionsClosed (trace (connect grantedEnv allCallbacks liveState)) = []
   \<and> allocated (connect grantedEnv allCallbacks liveState)
       = [Context 0, Context 1, MicStream 4, Session 5,
          Context 6, Context 7, MicStream 10, Session 11]"
  by (simp add: connect_granted [OF granted_grantedEnv] connectingState_eq liveState_eq)

section \<open>Errors of connect\<close>


lemma acquisitions_append [simp]: "acquisitions (xs @ ys) = acquisitions xs @ acquisitions ys"
  by (induction xs rule: acquisitions.induct) simp_all

lemma acquisitions_stops [simp]: "acquisitions (map SourceStop ks) = []"
  by (induction ks) simp_all

lemma cleanup_eq:
  "cleanup s =
     s\<lparr>audioSourcesRef := [], inputAudioContextRef := None, outputAudioContextRef := None,
       inputAnalyserRef := None, outputAnalyserRef := None, currentSessionRef := None,
       currentUserTextRef := [], currentAiTextRef := [], sessionPromiseRef := None,
       isConnected := False, isConnecting := False, nextStartTimeRef := 0,
       trace := trace s @ map SourceStop (audioSourcesRef s)
                @ (case inputAudioContextRef s of None \<Rightarrow> [] | Some c \<Rightarrow> [CloseAudioContext c])
                @ (case outputAudioContextRef s of None \<Rightarrow> [] | Some c \<Rightarrow> [CloseAudioContext c])
                @ (case currentSessionRef s of None \<Rightarrow> [] | Some k \<Rightarrow> [SessionClose k]),
       allocated :=
         (case currentSessionRef s of None \<Rightarrow> id | Some k \<Rightarrow> removeAll (Session k))
           ((case outputAudioContextRef s of None \<Rightarrow> id | Some c \<Rightarrow> removeAll (Context c))
             ((case inputAudioContextRef s of None \<Rightarrow> id | Some c \<Rightarrow> removeAll (Context c))
               (allocated s)))\<rparr>"
  by (cases "inputAudioContextRef s"; cases "outputAudioContextRef s";
      cases "currentSessionRef s") (simp_all add: cleanup_defs)

lemma connect_no_key:
  "\<not> truthy (API_KEY env) \<Longrightarrow>
     connect env config s = s\<lparr>error := Some ''API Key not found in environment variables.''\<rparr>"
  by (simp add: connect_def)

lemma connect_no_mediaDevices:
  "truthy (API_KEY env) \<Longrightarrow> \<not> mediaDevices env \<Longrightarrow>
     connect env config s = s\<lparr>configRef := config,
       error := Some ''Your browser doesn't support microphone access. Please use Chrome, Firefox, or Edge, and make sure you're accessing via localhost or HTTPS.''\<rparr>"
  by (simp add: connect_def)

lemma connect_no_AudioContext:
  assumes "truthy (API_KEY env)" "mediaDevices env" "\<not> AudioContextClass env"
  shows "connect env config s =
    s\<lparr>configRef := config, error := Some ''Your browser doesn't support Web Audio API.'',
      audioSourcesRef := [], inputAudioContextRef := None, outputAudioContextRef := None,
       inputAnalyserRef := None, outputAnalyserRef := None, currentSessionRef := None,
       currentUserTextRef := [], currentAiTextRef := [], sessionPromiseRef := None,
       isConnected := False, isConnecting := False, nextStartTimeRef := 0,
       trace := trace s @ map SourceStop (audioSourcesRef s)
                @ (case inputAudioContextRef s of None \<Rightarrow> [] | Some c \<Rightarrow> [CloseAudioContext c])
                @ (case outputAudioContextRef s of None \<Rightarrow> [] | Some c \<Rightarrow> [CloseAudioContext c])
                @ (case currentSessionRef s of None \<Rightarrow> [] | Some k \<Rightarrow> [SessionClose k]),
       allocated :=
         (case currentSessionRef s of None \<Rightarrow> id | Some k \<Rightarrow> removeAll (Session k))
           ((case outputAudioContextRef s of None \<Rightarrow> id | Some c \<Rightarrow> removeAll (Context c))
             ((case inputAudioContextRef s of None \<Rightarrow> id | Some c \<Rightarrow> removeAll (Context c))
               (allocated s)))\<rparr>"
  using assms by (simp add: connect_def connectCatch_def Let_def cleanup_eq)

lemma connect_rejected:
  assumes "truthy (API_KEY env)" "mediaDevices env" "AudioContextClass env"
    "getUserMedia env = Some err"
  shows "connect env config s =
    s\<lparr>configRef := config, error := Some (errorMessage err),
      audioSourcesRef := [], inputAudioContextRef := None, outputAudioContextRef := None,
       inputAnalyserRef := None, outputAnalyserRef := None, currentSessionRef := None,
       currentUserTextRef := [], currentAiTextRef := [], sessionPromiseRef := None,
       isConnected := False, isConnecting := False, nextStartTimeRef := 0,
       trace := trace s @ [NewAudioContext (nextId s) 16000, NewAudioContext (nextId s + 1) 24000]
                @ map SourceStop (audioSourcesRef s)
                @ [CloseAudioContext (nextId s), CloseAudioContext (nextId s + 1)]
                @ (case currentSessionRef s of None \<Rightarrow> [] | Some k \<Rightarrow> [SessionClose k]),
       allocated :=
         (case currentSessionRef s of None \<Rightarrow> id | Some k \<Rightarrow> removeAll (Session k))
           (removeAll (Context (nextId s + 1)) (removeAll (Context (nextId s)) (allocated s))),
       nextId := nextId s + 4\<rparr>"
  using assms
  by (simp add: connect_def connectCatch_def createAudioGraph_def emit_def Let_def cleanup_eq)


lemma set_removeAll_opt:
  "set ((case r of None \<Rightarrow> id | Some k \<Rightarrow> removeAll (f k)) xs) \<subseteq> set xs"
  by (cases r) auto

lemma connect_no_AudioContext_props:
  assumes "truthy (API_KEY env)" "mediaDevices env" "\<not> AudioContextClass env"
  shows "acquisitions (newEffects s (connect env config s)) = []"
    and "error (connect env config s) = Some ''Your browser doesn't support Web Audio API.''"
    and "nothingHeld (connect env config s)"
    and "set (allocated (connect env config s)) \<subseteq> set (allocated s)"
proof -
  note c = connect_no_AudioContext [OF assms]
  show "acquisitions (newEffects s (connect env config s)) = []"
    by (cases "inputAudioContextRef s"; cases "outputAudioContextRef s";
        cases "currentSessionRef s") (simp_all add: c newEffects_def)
  show "error (connect env config s) = Some ''Your browser doesn't support Web Audio API.''"
    by (simp add: c)
  show "nothingHeld (connect env config s)"
    by (simp add: c nothingHeld_def)
  have "set (allocated (connect env config s))
          \<subseteq> set ((case outputAudioContextRef s of None \<Rightarrow> id | Some c \<Rightarrow> removeAll (Context c))
             ((case inputAudioContextRef s of None \<Rightarrow> id | Some c \<Rightarrow> removeAll (Context c))
               (allocated s)))"
    by (simp add: c set_removeAll_opt)
  also have "\<dots> \<subseteq> set ((case inputAudioContextRef s of None \<Rightarrow> id | Some c \<Rightarrow> removeAll (Context c))
               (allocated s))"
    by (rule set_removeAll_opt)
  also have "\<dots> \<subseteq> set (allocated s)"
    by (rule set_removeAll_opt)
  finally show "set (allocated (connect env config s)) \<subseteq> set (allocated s)" .
qed

lemma connect_rejected_props:
  assumes "truthy (API_KEY env)" "mediaDevices env" "AudioContextClass env"
    "getUserMedia env = Some err"
  shows "acquisitions (newEffects s (connect env config s))
           = [NewAudioContext (nextId s) 16000, NewAudioContext (nextId s + 1) 24000]"
    and "\<exists>after. newEffects s (connect env config s)
           = [NewAudioContext (nextId s) 16000, NewAudioContext (nextId s + 1) 24000]
             @ map SourceStop (audioSourcesRef s)
             @ [CloseAudioContext (nextId s), CloseAudioContext (nextId s + 1)] @ after"
    and "error (connect env config s) = Some (errorMessage err)"
    and "nothingHeld (connect env config s)"
    and "set (allocated (connect env config s)) \<subseteq> set (allocated s)"
    and "Context (nextId s) \<notin> set (allocated (connect env config s))"
    and "Context (nextId s + 1) \<notin> set (allocated (connect env config s))"
proof -
  note c = connect_rejected [OF assms]
  show "acquisitions (newEffects s (connect env config s))
           = [NewAudioContext (nextId s) 16000, NewAudioContext (nextId s + 1) 24000]"
    by (cases "currentSessionRef s") (simp_all add: c newEffects_def)
  show "\<exists>after. newEffects s (connect env config s)
           = [NewAudioContext (nextId s) 16000, NewAudioContext (nextId s + 1) 24000]
             @ map SourceStop (audioSourcesRef s)
             @ [CloseAudioContext (nextId s), CloseAudioContext (nextId s + 1)] @ after"
    by (simp add: c newEffects_def)
  show "error (connect env config s) = Some (errorMessage err)"
    by (simp add: c)
  show "nothingHeld (connect env config s)"
    by (simp add: c nothingHeld_def)
  show "set (allocated (connect env config s)) \<subseteq> set (allocated s)"
    by (cases "currentSessionRef s") (auto simp add: c)
  show "Context (nextId s) \<notin> set (allocated (connect env config s))"
    by (cases "currentSessionRef s") (auto simp add: c)
  show "Context (nextId s + 1) \<notin> set (allocated (connect env config s))"
    by (cases "currentSessionRef s") (auto simp add: c)
qed

text \<open>
  Claim C9, as the code has it. A missing API key and a missing \<open>mediaDevices\<close> API are
  detected before anything is acquired: \<open>connect\<close> only sets the error (and, in the second
  case, has stored the config). A missing \<open>AudioContext\<close> class is detected before any
  context is created. A rejected \<open>getUserMedia\<close> (permission denied, no device) is detected
  after the two audio contexts and their analysers have been created; the \<open>catch\<close> block
  then runs \<open>cleanup\<close>, which closes both. In the last two cases \<open>connect\<close> ends with the
  message of the error, with no context, analyser or session in the refs, neither
  connecting nor connected, and with nothing allocated that was not allocated before the
  call. Permission denied and no device have messages of their own.
\<close>

theorem connect_errors_leave_nothing_held:
  "(\<not> truthy (API_KEY env) \<longrightarrow>
      connect env config s = s\<lparr>error := Some ''API Key not found in environment variables.''\<rparr>)
   \<and> (truthy (API_KEY env) \<and> \<not> mediaDevices env \<longrightarrow>
      connect env config s = s\<lparr>configRef := config,
        error := Some ''Your browser doesn't support microphone access. Please use Chrome, Firefox, or Edge, and make sure you're accessing via localhost or HTTPS.''\<rparr>)
   \<and> (truthy (API_KEY env) \<and> mediaDevices env \<and> \<not> AudioContextClass env \<longrightarrow>
      acquisitions (newEffects s (connect env config s)) = []
      \<and> error (connect env config s) = Some ''Your browser doesn't support Web Audio API.''
      \<and> nothingHeld (connect env config s)
      \<and> set (allocated (connect env config s)) \<subseteq> set (allocated s))
   \<and> (truthy (API_KEY env) \<and> mediaDevices env \<and> AudioContextClass env
        \<and> getUserMedia env = Some err \<longrightarrow>
      acquisitions (newEffects s (connect env config s))
        = [NewAudioContext (nextId s) 16000, NewAudioContext (nextId s + 1) 24000]
      \<and> (\<exists>after. newEffects s (connect env config s)
           = [NewAudioContext (nextId s) 16000, NewAudioContext (nextId s + 1) 24000]
             @ map SourceStop (audioSourcesRef s)
             @ [CloseAudioContext (nextId s), CloseAudioContext (nextId s + 1)] @ after)
      \<and> error (connect env config s) = Some (errorMessage err)
      \<and> nothingHeld (connect env config s)
      \<and> set (allocated (connect env config s)) \<subseteq> set (allocated s)
      \<and> Context (nextId s) \<notin> set (allocated (connect env config s))
      \<and> Context (nextId s + 1) \<notin> set (allocated (connect env config s)))
   \<and> errorMessage (DOMException ''NotAllowedError'' msg)
       = ''Microphone access denied. Please allow microphone permission and try again.''
   \<and> errorMessage (DOMException ''NotFoundError'' msg)
       = ''No microphone found. Please connect a microphone and try again.''"
  using connect_no_key [where env = env and config = config and s = s]
    connect_no_mediaDevices [where env = env and config = config and s = s]
    connect_no_AudioContext_props [where env = env and config = config and s = s]
    connect_rejected_props [where env = env and config = config and s = s and err = err]
  by simp

theorem connect_errors_leave_nothing_held_witness:
  "\<not> truthy (API_KEY (grantedEnv\<lparr>API_KEY := None\<rparr>))
   \<and> connect (grantedEnv\<lparr>API_KEY := None\<rparr>) allCallbacks initialState
       = initialState\<lparr>error := Some ''API Key not found in environment variables.''\<rparr>
   \<and> truthy (API_KEY (grantedEnv\<lparr>mediaDevices := False\<rparr>))
   \<and> \<not> mediaDevices (grantedEnv\<lparr>mediaDevices := False\<rparr>)
   \<and> trace (connect (grantedEnv\<lparr>mediaDevices := False\<rparr>) allCallbacks initialState) = []
   \<and> truthy (API_KEY (grantedEnv\<lparr>AudioContextClass := False\<rparr>))
   \<and> mediaDevices (grantedEnv\<lparr>AudioContextClass := False\<rparr>)
   \<and> \<not> AudioContextClass (grantedEnv\<lparr>AudioContextClass := False\<rparr>)
   \<and> error (connect (grantedEnv\<lparr>AudioContextClass := False\<rparr>) allCallbacks initialState)
       = Some ''Your browser doesn't support Web Audio API.''
   \<and> truthy (API_KEY deniedEnv) \<and> mediaDevices deniedEnv \<and> AudioContextClass deniedEnv
   \<and> getUserMedia deniedEnv = Some (DOMException ''NotAllowedError'' ''Permission denied'')
   \<and> acquisitions (newEffects initialState (connect deniedEnv allCallbacks initialState))
       = [NewAudioContext 0 16000, NewAudioContext 1 24000]
   \<and> error (connect deniedEnv allCallbacks initialState)
       = Some ''Microphone access denied. Please allow microphone permission and try again.''
   \<and> nothingHeld (connect deniedEnv allCallbacks initialState)
   \<and> allocated (connect deniedEnv allCallbacks initialState) = []"
  using
    connect_errors_leave_nothing_held [where env = "grantedEnv\<lparr>API_KEY := None\<rparr>"
      and config = allCallbacks and s = initialState]
    connect_errors_leave_nothing_held [where env = "grantedEnv\<lparr>mediaDevices := False\<rparr>"
      and config = allCallbacks and s = initialState]
    connect_errors_leave_nothing_held [where env = "grantedEnv\<lparr>AudioContextClass := False\<rparr>"
      and config = allCallbacks and s = initialState]
    connect_errors_leave_nothing_held [where env = deniedEnv
      and config = allCallbacks and s = initialState
      and err = "DOMException ''NotAllowedError'' ''Permission denied''"]
  by (simp add: grantedEnv_def deniedEnv_def initialState_def)

text \<open>
  Permission denied is not detected before any resource is acquired: both audio contexts
  are created first.
\<close>

theorem early_detection_counterexample:
  "getUserMedia deniedEnv = Some (DOMException ''NotAllowedError'' ''Permission denied'')
   \<and> newEffects initialState (connect deniedEnv emptyConfig initialState)
       = [NewAudioContext 0 16000, NewAudioContext 1 24000,
          CloseAudioContext 0, CloseAudioContext 1]
   \<and> acquisitions (newEffects initialState (connect deniedEnv emptyConfig initialState)) \<noteq> []
   \<and> error (connect deniedEnv emptyConfig initialState)
       = Some ''Microphone access denied. Please allow microphone permission and try again.''"
proof -
  have d: "truthy (API_KEY deniedEnv)" "mediaDevices deniedEnv" "AudioContextClass deniedEnv"
    "getUserMedia deniedEnv = Some (DOMException ''NotAllowedError'' ''Permission denied'')"
    by (simp_all add: deniedEnv_def)
  show ?thesis
    by (simp add: connect_rejected [OF d] d newEffects_def initialState_def)
qed

section \<open>Release of resources\<close>

lemma establishedState_eq:
  "establishedState = liveState\<lparr>currentSessionRef := Some 5, resolvedSessions := [5]\<rparr>"
  by (simp add: establishedState_def liveState_eq connect_granted [OF granted_grantedEnv]
        onopen_def sessionResolved_def emit_def initialState_def)

text \<open>The writes of \<open>cleanup\<close> after the session is closed are independent of each other:
  the cursor may as well be reset before the status.\<close>

lemma cleanup_order:
  "cleanup s = resetStatus (resetCursor (resetTranscripts (closeSession (resetAnalysers
       (closeOutputContext (closeInputContext (stopAllSources s)))))))"
  by (cases "inputAudioContextRef s"; cases "outputAudioContextRef s";
      cases "currentSessionRef s") (simp_all add: cleanup_defs)

text \<open>\<open>cleanup\<close> is what every exit runs.\<close>

lemma cleanup_on_every_exit:
  "disconnect s = cleanup s" "onclose s = cleanup s" "unmount s = cleanup s"
  "onerror s = cleanup (s\<lparr>error := Some ''Connection error occurred.''\<rparr>)"
  "connectCatch err s = cleanup (s\<lparr>error := Some (errorMessage err)\<rparr>)"
  by (simp_all add: disconnect_def onclose_def unmount_def onerror_def connectCatch_def)

text \<open>Nothing in \<open>cleanup\<close> touches a microphone stream.\<close>

lemma cleanup_keeps_streams:
  "MicStream k \<in> set (allocated (cleanup s)) \<longleftrightarrow> MicStream k \<in> set (allocated s)"
  by (cases "inputAudioContextRef s"; cases "outputAudioContextRef s";
      cases "currentSessionRef s") (simp_all add: cleanup_eq)

text \<open>
  Claim C8. Every audio device handle acquired during \<open>connect\<close> is to be released by
  \<open>cleanup\<close>. The code closes both audio contexts and the session, in this order, and
  drops the analysers, but the stream returned by \<open>getUserMedia\<close> is a local constant of
  \<open>connect\<close> on which nothing is ever called: after an established session is
  disconnected, closed by the remote side, ended by an error or unmounted, the microphone
  stream is still allocated.
\<close>

theorem microphone_stream_not_released:
  "trace (disconnect establishedState)
     = [NewAudioContext 0 16000, NewAudioContext 1 24000, GetUserMedia 4,
        LiveConnect 5 ''Kore'' ''Listen.'',
        CloseAudioContext 0, CloseAudioContext 1, SessionClose 5]
   \<and> allocated establishedState = [Context 0, Context 1, MicStream 4, Session 5]
   \<and> allocated (disconnect establishedState) = [MicStream 4]
   \<and> allocated (onclose establishedState) = [MicStream 4]
   \<and> allocated (onerror establishedState) = [MicStream 4]
   \<and> allocated (unmount establishedState) = [MicStream 4]"
  by (simp add: disconnect_def onclose_def onerror_def unmount_def cleanup_eq
        establishedState_eq liveState_eq)

section \<open>The capture pipeline\<close>

text \<open>
  Claim C6. Pre-handshake send safety. A frame of a script processor whose
  \<open>onaudioprocess\<close> handler is not installed (it is installed by \<open>onopen\<close> only, and
  \<open>connect\<close> installs none) changes nothing: nothing is sent and nothing is queued. The
  same holds whenever the session promise ref is null, which is the case after \<open>onclose\<close>,
  \<open>onerror\<close> and \<open>disconnect\<close>.
\<close>

theorem frames_dropped_unless_open:
  "(k \<notin> set (audioProcessHandlers s) \<longrightarrow>
       onaudioprocess k pcmBlob s = s
     \<and> onaudioprocess k pcmBlob (connect env config s) = connect env config s)
   \<and> (sessionPromiseRef s = None \<longrightarrow> onaudioprocess k pcmBlob s = s)
   \<and> onaudioprocess k pcmBlob (onclose s) = onclose s
   \<and> onaudioprocess k pcmBlob (onerror s) = onerror s
   \<and> onaudioprocess k pcmBlob (disconnect s) = disconnect s"
proof -
  have h: "audioProcessHandlers (connect env config s) = audioProcessHandlers s"
    by (cases "inputAudioContextRef s"; cases "outputAudioContextRef s";
        cases "currentSessionRef s"; cases "getUserMedia env")
       (simp_all add: connect_def connectCatch_def createAudioGraph_def openSession_def
          emit_def Let_def cleanup_eq)
  show ?thesis
    by (simp add: onaudioprocess_def h onclose_def onerror_def disconnect_def cleanup_result)
qed

theorem frames_dropped_unless_open_witness:
  "5 \<notin> set (audioProcessHandlers connectingState)
   \<and> sessionPromiseRef (onclose establishedState) = None
   \<and> onaudioprocess 5 ''AAAA'' connectingState = connectingState
   \<and> trace (onaudioprocess 5 ''AAAA'' connectingState) = trace connectingState
   \<and> pendingSends (onaudioprocess 5 ''AAAA'' connectingState) = []
   \<and> onaudioprocess 5 ''AAAA'' (onclose establishedState) = onclose establishedState
   \<and> pendingSends (onaudioprocess 5 ''AAAA'' (onclose establishedState)) = []"
proof -
  have h1: "5 \<notin> set (audioProcessHandlers connectingState)"
    by (simp add: connectingState_eq liveState_eq)
  have h2: "sessionPromiseRef (onclose establishedState) = None"
    by (simp add: onclose_def cleanup_result)
  have p: "pendingSends connectingState = []" "pendingSends (onclose establishedState) = []"
    by (simp_all add: connectingState_eq onclose_def cleanup_eq establishedState_eq liveState_eq)
  show ?thesis
    using h1 h2 p
      frames_dropped_unless_open [where k = 5 and s = connectingState and pcmBlob = "''AAAA''"]
      frames_dropped_unless_open [where k = 5 and s = "onclose establishedState" and pcmBlob = "''AAAA''"]
    by simp
qed

section \<open>The photo context\<close>


lemma forgetPhoto_sel [simp]:
  "isConnected (forgetPhoto s) = isConnected s"
  "isConnecting (forgetPhoto s) = isConnecting s"
  "error (forgetPhoto s) = error s"
  "inputAudioContextRef (forgetPhoto s) = inputAudioContextRef s"
  "outputAudioContextRef (forgetPhoto s) = outputAudioContextRef s"
  "inputAnalyserRef (forgetPhoto s) = inputAnalyserRef s"
  "outputAnalyserRef (forgetPhoto s) = outputAnalyserRef s"
  "nextStartTimeRef (forgetPhoto s) = nextStartTimeRef s"
  "audioSourcesRef (forgetPhoto s) = audioSourcesRef s"
  "sessionPromiseRef (forgetPhoto s) = sessionPromiseRef s"
  "currentSessionRef (forgetPhoto s) = currentSessionRef s"
  "currentUserTextRef (forgetPhoto s) = currentUserTextRef s"
  "currentAiTextRef (forgetPhoto s) = currentAiTextRef s"
  "trace (forgetPhoto s) = trace s"
  "allocated (forgetPhoto s) = allocated s"
  "nextId (forgetPhoto s) = nextId s"
  "audioProcessHandlers (forgetPhoto s) = audioProcessHandlers s"
  "resolvedSessions (forgetPhoto s) = resolvedSessions s"
  "pendingSends (forgetPhoto s) = pendingSends s"
  by (simp_all add: forgetPhoto_def)

lemma forgetPhoto_calls [simp]:
  "tcall f e (forgetPhoto s) = tcall f e s"
  "acall g e (forgetPhoto s) = acall g e s"
  "userChunkCall c (forgetPhoto s) = userChunkCall c s"
  "aiChunkCall c (forgetPhoto s) = aiChunkCall c s"
  by (simp_all add: tcall_def acall_def userChunkCall_def aiChunkCall_def
        hasTranscriptCallback_def hasAudioCallback_def forgetPhoto_def)

lemma forgetPhoto_upd [simp]:
  "(forgetPhoto s)\<lparr>isConnected := a1\<rparr> = forgetPhoto (s\<lparr>isConnected := a1\<rparr>)"
  "(forgetPhoto s)\<lparr>isConnecting := a2\<rparr> = forgetPhoto (s\<lparr>isConnecting := a2\<rparr>)"
  "(forgetPhoto s)\<lparr>error := a3\<rparr> = forgetPhoto (s\<lparr>error := a3\<rparr>)"
  "(forgetPhoto s)\<lparr>inputAudioContextRef := a4\<rparr> = forgetPhoto (s\<lparr>inputAudioContextRef := a4\<rparr>)"
  "(forgetPhoto s)\<lparr>outputAudioContextRef := a5\<rparr> = forgetPhoto (s\<lparr>outputAudioContextRef := a5\<rparr>)"
  "(forgetPhoto s)\<lparr>inputAnalyserRef := a6\<rparr> = forgetPhoto (s\<lparr>inputAnalyserRef := a6\<rparr>)"
  "(forgetPhoto s)\<lparr>outputAnalyserRef := a7\<rparr> = forgetPhoto (s\<lparr>outputAnalyserRef := a7\<rparr>)"
  "(forgetPhoto s)\<lparr>nextStartTimeRef := a8\<rparr> = forgetPhoto (s\<lparr>nextStartTimeRef := a8\<rparr>)"
  "(forgetPhoto s)\<lparr>audioSourcesRef := a9\<rparr> = forgetPhoto (s\<lparr>audioSourcesRef := a9\<rparr>)"
  "(forgetPhoto s)\<lparr>sessionPromiseRef := b1\<rparr> = forgetPhoto (s\<lparr>sessionPromiseRef := b1\<rparr>)"
  "(forgetPhoto s)\<lparr>currentSessionRef := b2\<rparr> = forgetPhoto (s\<lparr>currentSessionRef := b2\<rparr>)"
  "(forgetPhoto s)\<lparr>currentUserTextRef := b3\<rparr> = forgetPhoto (s\<lparr>currentUserTextRef := b3\<rparr>)"
  "(forgetPhoto s)\<lparr>currentAiTextRef := b4\<rparr> = forgetPhoto (s\<lparr>currentAiTextRef := b4\<rparr>)"
  "(forgetPhoto s)\<lparr>trace := b5\<rparr> = forgetPhoto (s\<lparr>trace := b5\<rparr>)"
  "(forgetPhoto s)\<lparr>allocated := b6\<rparr> = forgetPhoto (s\<lparr>allocated := b6\<rparr>)"
  "(forgetPhoto s)\<lparr>nextId := b7\<rparr> = forgetPhoto (s\<lparr>nextId := b7\<rparr>)"
  "(forgetPhoto s)\<lparr>audioProcessHandlers := b8\<rparr> = forgetPhoto (s\<lparr>audioProcessHandlers := b8\<rparr>)"
  "(forgetPhoto s)\<lparr>resolvedSessions := b9\<rparr> = forgetPhoto (s\<lparr>resolvedSessions := b9\<rparr>)"
  "(forgetPhoto s)\<lparr>pendingSends := c1\<rparr> = forgetPhoto (s\<lparr>pendingSends := c1\<rparr>)"
  by (simp_all add: forgetPhoto_def)

lemma forgetPhoto_configRef [simp]:
  "(forgetPhoto s)\<lparr>configRef := c\<rparr> = s\<lparr>configRef := c\<rparr>"
  by (simp add: forgetPhoto_def)

lemma forgetPhoto_config:
  "forgetPhoto (s\<lparr>configRef := config\<lparr>photoContext := p\<rparr>\<rparr>)
     = forgetPhoto (s\<lparr>configRef := config\<lparr>photoContext := q\<rparr>\<rparr>)"
  by (simp add: forgetPhoto_def)

lemma forgetPhoto_idem [simp]: "forgetPhoto (forgetPhoto s) = forgetPhoto s"
  by (simp add: forgetPhoto_def)

lemma cleanup_forgetPhoto: "cleanup (forgetPhoto s) = forgetPhoto (cleanup s)"
  by (simp add: cleanup_eq)

lemma blocks_forgetPhoto:
  "handleInputTranscription c (forgetPhoto s) = forgetPhoto (handleInputTranscription c s)"
  "handleOutputTranscription c (forgetPhoto s) = forgetPhoto (handleOutputTranscription c s)"
  "handleTurnComplete c (forgetPhoto s) = forgetPhoto (handleTurnComplete c s)"
  "closeUserTurn (forgetPhoto s) = forgetPhoto (closeUserTurn s)"
  "schedule b (forgetPhoto s) = forgetPhoto (schedule b s)"
  by (simp_all add: block_eqs closeUserTurn_eq schedule_eq userTurnCloses_def
        split del: if_split cong: if_cong)

lemma handleInterrupted_forgetPhoto:
  "handleInterrupted c (forgetPhoto s) = forgetPhoto (handleInterrupted c s)"
  by (cases "contentFlag interrupted c") (simp_all add: handleInterrupted_eq)

lemma callAudio_forgetPhoto:
  "callAudio g e (forgetPhoto s) = forgetPhoto (callAudio g e s)"
  by (simp add: callAudio_eq)

lemma handleAudio_forgetPhoto:
  "handleAudio env c (forgetPhoto s)
     = (fst (handleAudio env c s), forgetPhoto (snd (handleAudio env c s)))"
proof (cases "truthy (contentField inlineData c)")
  case False
  then show ?thesis by (simp add: handleAudio_def)
next
  case True
  show ?thesis
  proof (cases "outputAudioContextRef (closeUserTurn s)")
    case None
    then show ?thesis
      using True by (simp add: handleAudio_def blocks_forgetPhoto Let_def)
  next
    case (Some ctx)
    show ?thesis
    proof (cases "decoded env")
      case None
      then show ?thesis
        using True Some
        by (cases "audioSourcesRef (closeUserTurn s) = []")
           (simp_all add: handleAudio_def blocks_forgetPhoto callAudio_forgetPhoto Let_def)
    next
      case (Some b)
      then show ?thesis
        using True \<open>outputAudioContextRef (closeUserTurn s) = Some ctx\<close>
        by (cases "audioSourcesRef (closeUserTurn s) = []";
            cases "outputAnalyserRef (closeUserTurn s)")
           (simp_all add: handleAudio_def blocks_forgetPhoto callAudio_forgetPhoto Let_def
              callAudio_eq)
    qed
  qed
qed

lemma onmessage_forgetPhoto:
  "snd (onmessage env m (forgetPhoto s)) = forgetPhoto (snd (onmessage env m s))"
proof -
  let ?s1 = "handleOutputTranscription (serverContent m)
               (handleInputTranscription (serverContent m) s)"
  obtain r s2 where h: "handleAudio env (serverContent m) ?s1 = (r, s2)"
    by (cases "handleAudio env (serverContent m) ?s1")
  then have "handleAudio env (serverContent m) (forgetPhoto ?s1) = (r, forgetPhoto s2)"
    by (simp add: handleAudio_forgetPhoto)
  then show ?thesis
    using h by (cases r)
      (simp_all add: onmessage_def Let_def blocks_forgetPhoto handleInterrupted_forgetPhoto)
qed

lemma onended_forgetPhoto: "onended k (forgetPhoto s) = forgetPhoto (onended k s)"
  by (simp add: onended_def callAudio_eq Let_def)

lemma others_forgetPhoto:
  "onopen k (forgetPhoto s) = forgetPhoto (onopen k s)"
  "sessionResolved k (forgetPhoto s) = forgetPhoto (sessionResolved k s)"
  "onaudioprocess k b (forgetPhoto s) = forgetPhoto (onaudioprocess k b s)"
  by (cases "sessionPromiseRef s";
      simp add: onopen_def sessionResolved_def onaudioprocess_def emit_def)+

lemma onerror_forgetPhoto: "onerror (forgetPhoto s) = forgetPhoto (onerror s)"
proof -
  show ?thesis by (simp add: onerror_def cleanup_forgetPhoto)
qed

lemma orElse_photo [simp]:
  "voiceName (config\<lparr>photoContext := p\<rparr>) = voiceName config"
  "systemInstruction (config\<lparr>photoContext := p\<rparr>) = systemInstruction config"
  by simp_all

lemma connect_forgetPhoto:
  "forgetPhoto (connect env (config\<lparr>photoContext := p\<rparr>) (forgetPhoto s))
     = forgetPhoto (connect env (config\<lparr>photoContext := q\<rparr>) s)"
proof -
  consider (nokey) "\<not> truthy (API_KEY env)"
    | (nomedia) "truthy (API_KEY env)" "\<not> mediaDevices env"
    | (noctx) "truthy (API_KEY env)" "mediaDevices env" "\<not> AudioContextClass env"
    | (rejected) err where "truthy (API_KEY env)" "mediaDevices env" "AudioContextClass env"
        "getUserMedia env = Some err"
    | (granted) "granted env"
    by (cases "getUserMedia env") (auto simp add: granted_def)
  then show ?thesis
  proof cases
    case nokey
    then show ?thesis by (simp add: connect_no_key)
  next
    case nomedia
    then show ?thesis by (simp add: connect_no_mediaDevices forgetPhoto_def)
  next
    case noctx
    then show ?thesis by (simp add: connect_no_AudioContext forgetPhoto_def)
  next
    case rejected
    then show ?thesis by (simp add: connect_rejected forgetPhoto_def)
  next
    case granted
    then show ?thesis by (simp add: connect_granted forgetPhoto_def)
  qed
qed

lemma step_forgetPhoto: "forgetPhoto (step e (forgetPhoto s)) = forgetPhoto (step e s)"
proof (cases e)
  case (Connect env config)
  then show ?thesis
    using connect_forgetPhoto [where env = env and config = config and s = s
        and p = "photoContext config" and q = "photoContext config"]
    by simp
qed (simp_all add: disconnect_def unmount_def onclose_def cleanup_forgetPhoto
       onmessage_forgetPhoto onended_forgetPhoto others_forgetPhoto onerror_forgetPhoto)

lemma run_forgetPhoto:
  "forgetPhoto s = forgetPhoto t \<Longrightarrow> forgetPhoto (run es s) = forgetPhoto (run es t)"
proof (induction es arbitrary: s t)
  case Nil
  then show ?case by simp
next
  case (Cons e es)
  have "forgetPhoto (step e s) = forgetPhoto (step e (forgetPhoto s))"
    by (simp add: step_forgetPhoto)
  also have "\<dots> = forgetPhoto (step e (forgetPhoto t))"
    by (simp add: Cons.prems)
  also have "\<dots> = forgetPhoto (step e t)"
    by (simp add: step_forgetPhoto)
  finally have "forgetPhoto (step e s) = forgetPhoto (step e t)" .
  then have "forgetPhoto (run es (step e s)) = forgetPhoto (run es (step e t))"
    by (rule Cons.IH)
  then show ?case by simp
qed

text \<open>
  Claim C10. The \<open>photoContext\<close> field of the config is stored and never read. Two runs
  that start in the same state with a \<open>connect\<close> whose configs differ in \<open>photoContext\<close>
  only, and then see the same events, end in states that differ at most in the stored
  \<open>photoContext\<close>: the status, the error, the refs and the log of all calls made,
  the request of \<open>ai.live.connect\<close> included, are the same.
\<close>

theorem photoContext_not_observable:
  "forgetPhoto (run (Connect env (config\<lparr>photoContext := p\<rparr>) # events) s)
     = forgetPhoto (run (Connect env (config\<lparr>photoContext := q\<rparr>) # events) s)
   \<and> trace (run (Connect env (config\<lparr>photoContext := p\<rparr>) # events) s)
     = trace (run (Connect env (config\<lparr>photoContext := q\<rparr>) # events) s)
   \<and> acquisitions (newEffects s (connect env (config\<lparr>photoContext := p\<rparr>) s))
     = acquisitions (newEffects s (connect env (config\<lparr>photoContext := q\<rparr>) s))"
proof -
  have c: "forgetPhoto (connect env (config\<lparr>photoContext := p\<rparr>) s)
         = forgetPhoto (connect env (config\<lparr>photoContext := q\<rparr>) s)"
    by (rule trans [OF
          connect_forgetPhoto [where env = env and config = config and s = s and p = p and q = p,
            symmetric]
          connect_forgetPhoto [where env = env and config = config and s = s and p = p and q = q]])
  have r: "forgetPhoto (run (Connect env (config\<lparr>photoContext := p\<rparr>) # events) s)
     = forgetPhoto (run (Connect env (config\<lparr>photoContext := q\<rparr>) # events) s)"
    using run_forgetPhoto [OF c, of events] by simp
  have t: "trace a = trace b" if "forgetPhoto a = forgetPhoto b" for a b
    using that forgetPhoto_sel(14) by metis
  have "trace (connect env (config\<lparr>photoContext := p\<rparr>) s)
         = trace (connect env (config\<lparr>photoContext := q\<rparr>) s)"
    by (rule t [OF c])
  then show ?thesis
    using r t [OF r] by (simp add: newEffects_def)
qed

end
